theory Spec2Isabelle
  imports Main "HOL-Library.Sublist"
begin

section \<open>Simple Tasks API: the request handlers of \<^verbatim>\<open>src/index.ts\<close> and of its variant\<close>

text \<open>
  The repository holds one Elysia application in two variants: \<^verbatim>\<open>src/src/index.ts\<close>
  answers an error with a differentiated HTTP status (\<^verbatim>\<open>status(401, {error})\<close>), the
  file \<^verbatim>\<open>src/unnamed/part_000\<close> answers it with a plain object (status 200). Each
  handler is embedded as a function from the request and the store to a response and the
  new store. The collaborators that are libraries (\<^verbatim>\<open>jwt.verify\<close>, \<^verbatim>\<open>bcrypt.hash\<close>) are
  parameters of the handlers; the Prisma client is a store of rows held in lists.
\<close>

subsection \<open>JavaScript values of a request body\<close>

text \<open>
  A field of a JSON body as the handler meets it behind the cast \<^verbatim>\<open>body as {...}\<close>:
  absent (\<^verbatim>\<open>undefined\<close>), \<^verbatim>\<open>null\<close>, a boolean, a number (integers only), a
  string, or an object or array (\<open>JObject\<close>, of which only truthiness and the type matter).
\<close>

datatype jsval = JUndefined | JNull | JBool bool | JNum int | JStr string | JObject

text \<open>\<^verbatim>\<open>!v\<close> is \<open>\<not> truthy v\<close>.\<close>

fun truthy :: "jsval \<Rightarrow> bool" where
  "truthy JUndefined = False"
| "truthy JNull = False"
| "truthy (JBool b) = b"
| "truthy (JNum n) = (n \<noteq> 0)"
| "truthy (JStr s) = (s \<noteq> [])"
| "truthy JObject = True"

text \<open>\<^verbatim>\<open>typeof v === 'boolean'\<close>.\<close>

fun is_boolean :: "jsval \<Rightarrow> bool" where
  "is_boolean (JBool b) = True"
| "is_boolean v = False"

subsection \<open>Responses\<close>

record task =
  task_id :: int
  userId :: int
  title :: string
  date :: string
  isChecked :: bool

record user =
  user_id :: int
  email :: string
  password :: string
  image_path :: string

text \<open>
  The exceptions a handler can meet: the two failures of \<^verbatim>\<open>jwt.verify\<close>, the
  Prisma client refusing an argument that is of the wrong type or that it does not know, a
  missing row, a duplicate of a unique column or a reference to a row that is not there,
  and \<^verbatim>\<open>bcrypt.hash\<close> refusing a password that is not a string.
\<close>

datatype exn = JsonWebTokenError | TokenExpiredError
  | PrismaValidationError | RecordNotFound | UniqueConstraintViolation
  | ForeignKeyViolation | IllegalArguments

datatype body =
    ErrorBody string
  | MessageBody string
  | TaskBody task
  | TasksBody "task list"
  | ProfileBody string string nat nat
  | ImageBody string string

text \<open>
  \<open>Reply s b\<close> is a response of status \<open>s\<close> with the JSON body \<open>b\<close> (a plain
  \<^verbatim>\<open>return\<close> is status 200); \<open>Threw e\<close> is an exception that leaves the handler;
  \<open>SchemaRejected\<close> is the framework refusing a request that does not fit the schema
  declared beside the handler, before the handler runs.
\<close>

datatype response = Reply nat body | Threw exn | SchemaRejected

subsection \<open>Token verification\<close>

record JwtUserPayload =
  payload_id :: int
  payload_email :: string

definition JWT_SECRET :: string where
  "JWT_SECRET = ''supersecretkey''"

text \<open>
  \<^verbatim>\<open>jwt.verify(token, secret)\<close> either returns the decoded payload or throws.
\<close>

type_synonym verifier = "string \<Rightarrow> string \<Rightarrow> exn + JwtUserPayload"

text \<open>
  \<^verbatim>\<open>getUserFromToken(token: string | undefined)\<close>: \<open>None\<close> is \<^verbatim>\<open>undefined\<close> as an
  argument and \<^verbatim>\<open>null\<close> as a result. The result is a sum so that an exception leaving
  the function would be the value \<open>Inl\<close>.
\<close>

definition getUserFromToken :: "verifier \<Rightarrow> string option \<Rightarrow> exn + JwtUserPayload option" where
  "getUserFromToken verify token =
     (case token of
        None \<Rightarrow> Inr None
      | Some tok \<Rightarrow>
          if tok = [] then Inr None
          else (case verify tok JWT_SECRET of
                  Inr decoded \<Rightarrow> Inr (Some decoded)
                | Inl e \<Rightarrow> Inr None))"

text \<open>\<^verbatim>\<open>s.split(c)\<close> for a separator of one character.\<close>

fun split :: "char \<Rightarrow> string \<Rightarrow> string list" where
  "split c [] = [[]]"
| "split c (x # xs) =
     (if x = c then [] # split c xs
      else (case split c xs of
              [] \<Rightarrow> [[x]]
            | w # ws \<Rightarrow> (x # w) # ws))"

text \<open>\<^verbatim>\<open>xs[1]\<close>: \<^verbatim>\<open>undefined\<close> when the array has fewer than two elements.\<close>

fun index1 :: "'a list \<Rightarrow> 'a option" where
  "index1 (x # y # ys) = Some y"
| "index1 xs = None"

type_synonym headers = "string \<rightharpoonup> string"

text \<open>
  The first three lines of every protected handler:
  \<^verbatim>\<open>const authHeader = headers['authorization'];\<close>
  \<^verbatim>\<open>const token = authHeader?.split(' ')[1];\<close>
  \<^verbatim>\<open>const userPayload = getUserFromToken(token);\<close>
\<close>

definition bearer_token :: "headers \<Rightarrow> string option" where
  "bearer_token hdrs =
     (case hdrs ''authorization'' of
        None \<Rightarrow> None
      | Some authHeader \<Rightarrow> index1 (split CHR '' '' authHeader))"

definition userPayload_of :: "verifier \<Rightarrow> headers \<Rightarrow> exn + JwtUserPayload option" where
  "userPayload_of verify hdrs = getUserFromToken verify (bearer_token hdrs)"

subsection \<open>The store\<close>

text \<open>
  The Prisma client over two tables. The schema file is not among the sources, so the
  store is the least one the calls of the handlers need: rows in insertion order, a
  counter per table for the identifier the store assigns on creation, the unique email
  of a user and the reference from a task to its user.
\<close>

record db =
  users :: "user list"
  tasks :: "task list"
  next_user_id :: int
  next_task_id :: int

text \<open>
  The fields \<^verbatim>\<open>title\<close>, \<^verbatim>\<open>date\<close>, \<^verbatim>\<open>isChecked\<close> of a request body, and of the
  \<^verbatim>\<open>data\<close> argument built from them; \<open>JUndefined\<close> is an absent key.
\<close>

record task_fields =
  f_title :: jsval
  f_date :: jsval
  f_isChecked :: jsval

text \<open>
  Modelled from the spec: the relation between the two tables, declared in the Prisma
  schema file, which is not among the sources. The specification calls \<^verbatim>\<open>userId\<close> a
  "foreign reference to the owning User", and the profile handler reads the relation with
  \<^verbatim>\<open>include: { tasks: true }\<close>. So
  \<^verbatim>\<open>prisma.task.create({ data: { title, date, isChecked, userId } })\<close> refuses an
  argument that is not of the column's type, then a \<^verbatim>\<open>userId\<close> that is no stored
  user's id; otherwise the row is appended under the next identifier and returned.
\<close>

definition prisma_task_create :: "task_fields \<Rightarrow> int \<Rightarrow> db \<Rightarrow> exn + (task \<times> db)" where
  "prisma_task_create data uid d =
     (case (f_title data, f_date data, f_isChecked data) of
        (JStr t, JStr dt, JBool c) \<Rightarrow>
          (case find (\<lambda>u. user_id u = uid) (users d) of
             None \<Rightarrow> Inl ForeignKeyViolation
           | Some owner \<Rightarrow>
               (let row = \<lparr>task_id = next_task_id d, userId = uid, title = t, date = dt,
                           isChecked = c\<rparr>
                in Inr (row, d\<lparr>tasks := tasks d @ [row], next_task_id := next_task_id d + 1\<rparr>)))
      | _ \<Rightarrow> Inl PrismaValidationError)"

text \<open>\<^verbatim>\<open>prisma.task.findUnique({ where: { id } })\<close>.\<close>

definition prisma_task_findUnique :: "int \<Rightarrow> db \<Rightarrow> task option" where
  "prisma_task_findUnique i d = find (\<lambda>t. task_id t = i) (tasks d)"

text \<open>
  The \<^verbatim>\<open>where\<close> object of \<^verbatim>\<open>GET /tasks\<close>: \<^verbatim>\<open>userId\<close>, an optional \<^verbatim>\<open>date\<close>
  and an optional \<^verbatim>\<open>title: { contains, mode: 'insensitive' }\<close>.
\<close>

record task_where =
  w_userId :: int
  w_date :: "string option"
  w_title_contains :: "string option"

text \<open>The conditions on \<^verbatim>\<open>userId\<close> and \<^verbatim>\<open>date\<close>: equality.\<close>

definition matches :: "task_where \<Rightarrow> task \<Rightarrow> bool" where
  "matches w t =
     (userId t = w_userId w
      \<and> (case w_date w of None \<Rightarrow> True | Some dt \<Rightarrow> date t = dt))"

text \<open>
  \<^verbatim>\<open>prisma.task.findMany({ where })\<close>. The database of the repository is SQLite (its
  README says so), and the Prisma client for SQLite has no \<^verbatim>\<open>mode\<close> argument in a
  string filter: it refuses a query that carries one. The handlers build the filter behind
  \<^verbatim>\<open>let where: any\<close>, which hides this from the type checker. So a \<^verbatim>\<open>where\<close> with a
  title filter throws; without one, the rows that match are returned in the order of the
  store.
\<close>

definition prisma_task_findMany :: "task_where \<Rightarrow> db \<Rightarrow> exn + task list" where
  "prisma_task_findMany w d =
     (case w_title_contains w of
        Some s \<Rightarrow> Inl PrismaValidationError
      | None \<Rightarrow> Inr (filter (matches w) (tasks d)))"

text \<open>
  \<^verbatim>\<open>prisma.task.update({ where: { id }, data })\<close>: a key of \<^verbatim>\<open>data\<close> that is present
  must have the column's type; a present key replaces the column, an absent one leaves it.
\<close>

definition data_ok :: "task_fields \<Rightarrow> bool" where
  "data_ok data =
     ((case f_title data of JUndefined \<Rightarrow> True | JStr s \<Rightarrow> True | _ \<Rightarrow> False)
      \<and> (case f_date data of JUndefined \<Rightarrow> True | JStr s \<Rightarrow> True | _ \<Rightarrow> False)
      \<and> (case f_isChecked data of JUndefined \<Rightarrow> True | JBool b \<Rightarrow> True | _ \<Rightarrow> False))"

definition apply_data :: "task_fields \<Rightarrow> task \<Rightarrow> task" where
  "apply_data data t =
     (let t1 = (case f_title data of JStr s \<Rightarrow> t\<lparr>title := s\<rparr> | _ \<Rightarrow> t);
          t2 = (case f_date data of JStr s \<Rightarrow> t1\<lparr>date := s\<rparr> | _ \<Rightarrow> t1)
      in (case f_isChecked data of JBool b \<Rightarrow> t2\<lparr>isChecked := b\<rparr> | _ \<Rightarrow> t2))"

definition prisma_task_update :: "int \<Rightarrow> task_fields \<Rightarrow> db \<Rightarrow> exn + (task \<times> db)" where
  "prisma_task_update i data d =
     (if \<not> data_ok data then Inl PrismaValidationError
      else (case find (\<lambda>t. task_id t = i) (tasks d) of
              None \<Rightarrow> Inl RecordNotFound
            | Some t \<Rightarrow>
                Inr (apply_data data t,
                     d\<lparr>tasks := map (\<lambda>r. if task_id r = i then apply_data data r else r) (tasks d)\<rparr>)))"

text \<open>\<^verbatim>\<open>prisma.user.findUnique({ where: { id }, include: { tasks: true } })\<close>.\<close>

definition prisma_user_findUnique_tasks :: "int \<Rightarrow> db \<Rightarrow> (user \<times> task list) option" where
  "prisma_user_findUnique_tasks i d =
     (case find (\<lambda>u. user_id u = i) (users d) of
        None \<Rightarrow> None
      | Some u \<Rightarrow> Some (u, filter (\<lambda>t. userId t = user_id u) (tasks d)))"

subsection \<open>The task and profile handlers of \<^verbatim>\<open>src/src/index.ts\<close>\<close>

text \<open>
  Each handler is the three lines that resolve the caller, then the rest of the body,
  named \<open>_for\<close>, which runs with the verified payload.
\<close>

definition post_tasks_for :: "JwtUserPayload \<Rightarrow> task_fields \<Rightarrow> db \<Rightarrow> response \<times> db" where
  "post_tasks_for userPayload body d =
     (if \<not> truthy (f_title body) \<or> \<not> truthy (f_date body) \<or> \<not> is_boolean (f_isChecked body)
      then (Reply 400 (ErrorBody ''Invalid task data''), d)
      else (case prisma_task_create body (payload_id userPayload) d of
              Inl e \<Rightarrow> (Threw e, d)
            | Inr (task, d') \<Rightarrow> (Reply 200 (TaskBody task), d')))"

definition post_tasks :: "verifier \<Rightarrow> headers \<Rightarrow> task_fields \<Rightarrow> db \<Rightarrow> response \<times> db" where
  "post_tasks verify hdrs body d =
     (case userPayload_of verify hdrs of
        Inl e \<Rightarrow> (Threw e, d)
      | Inr None \<Rightarrow> (Reply 401 (ErrorBody ''Unauthorized''), d)
      | Inr (Some userPayload) \<Rightarrow> post_tasks_for userPayload body d)"

text \<open>
  The query of \<^verbatim>\<open>GET /tasks\<close>: each of \<^verbatim>\<open>date\<close> and \<^verbatim>\<open>search\<close> is a string or
  absent; \<^verbatim>\<open>if (date)\<close> holds for a string that is present and not empty.
\<close>

record task_query =
  q_date :: "string option"
  q_search :: "string option"

definition get_tasks_for :: "JwtUserPayload \<Rightarrow> task_query \<Rightarrow> db \<Rightarrow> response \<times> db" where
  "get_tasks_for userPayload query d =
     (let where0 = \<lparr>w_userId = payload_id userPayload, w_date = None, w_title_contains = None\<rparr>;
          where1 = (case q_date query of
                      Some dt \<Rightarrow> if dt \<noteq> [] then where0\<lparr>w_date := Some dt\<rparr> else where0
                    | None \<Rightarrow> where0);
          where2 = (case q_search query of
                      Some s \<Rightarrow> if s \<noteq> [] then where1\<lparr>w_title_contains := Some s\<rparr> else where1
                    | None \<Rightarrow> where1)
      in (case prisma_task_findMany where2 d of
            Inl e \<Rightarrow> (Threw e, d)
          | Inr found \<Rightarrow> (Reply 200 (TasksBody found), d)))"

definition get_tasks :: "verifier \<Rightarrow> headers \<Rightarrow> task_query \<Rightarrow> db \<Rightarrow> response \<times> db" where
  "get_tasks verify hdrs query d =
     (case userPayload_of verify hdrs of
        Inl e \<Rightarrow> (Threw e, d)
      | Inr None \<Rightarrow> (Reply 401 (ErrorBody ''Unauthorized''), d)
      | Inr (Some userPayload) \<Rightarrow> get_tasks_for userPayload query d)"

text \<open>
  \<^verbatim>\<open>PATCH /tasks/:id\<close>. The argument \<open>i\<close> is \<^verbatim>\<open>Number(params.id)\<close> for a path
  segment that denotes an integer.
\<close>

definition patch_tasks_id_for :: "JwtUserPayload \<Rightarrow> int \<Rightarrow> task_fields \<Rightarrow> db \<Rightarrow> response \<times> db" where
  "patch_tasks_id_for userPayload i body d =
     (case prisma_task_findUnique i d of
        None \<Rightarrow> (Reply 404 (ErrorBody ''Task not found''), d)
      | Some task \<Rightarrow>
          if userId task \<noteq> payload_id userPayload
          then (Reply 404 (ErrorBody ''Task not found''), d)
          else (case prisma_task_update i body d of
                  Inl e \<Rightarrow> (Threw e, d)
                | Inr (updated, d') \<Rightarrow> (Reply 200 (TaskBody updated), d')))"

definition patch_tasks_id :: "verifier \<Rightarrow> headers \<Rightarrow> int \<Rightarrow> task_fields \<Rightarrow> db \<Rightarrow> response \<times> db" where
  "patch_tasks_id verify hdrs i body d =
     (case userPayload_of verify hdrs of
        Inl e \<Rightarrow> (Threw e, d)
      | Inr None \<Rightarrow> (Reply 401 (ErrorBody ''Unauthorized''), d)
      | Inr (Some userPayload) \<Rightarrow> patch_tasks_id_for userPayload i body d)"

definition get_profile_for :: "JwtUserPayload \<Rightarrow> db \<Rightarrow> response \<times> db" where
  "get_profile_for userPayload d =
     (case prisma_user_findUnique_tasks (payload_id userPayload) d of
        None \<Rightarrow> (Reply 404 (ErrorBody ''User not found''), d)
      | Some (u, user_tasks) \<Rightarrow>
          (Reply 200 (ProfileBody (email u) (image_path u)
                        (length user_tasks) (length (filter isChecked user_tasks))), d))"

definition get_profile :: "verifier \<Rightarrow> headers \<Rightarrow> db \<Rightarrow> response \<times> db" where
  "get_profile verify hdrs d =
     (case userPayload_of verify hdrs of
        Inl e \<Rightarrow> (Threw e, d)
      | Inr None \<Rightarrow> (Reply 401 (ErrorBody ''Unauthorized''), d)
      | Inr (Some userPayload) \<Rightarrow> get_profile_for userPayload d)"

subsection \<open>The handlers of \<^verbatim>\<open>src/unnamed/part_000\<close>\<close>

text \<open>
  The variant returns every error as a plain object, which the framework sends with
  status 200. Its handlers carry the suffix \<open>_plain\<close>.
\<close>

definition post_tasks_for_plain :: "JwtUserPayload \<Rightarrow> task_fields \<Rightarrow> db \<Rightarrow> response \<times> db" where
  "post_tasks_for_plain userPayload body d =
     (if \<not> truthy (f_title body) \<or> \<not> truthy (f_date body) \<or> \<not> is_boolean (f_isChecked body)
      then (Reply 200 (ErrorBody ''Invalid task data''), d)
      else (case prisma_task_create body (payload_id userPayload) d of
              Inl e \<Rightarrow> (Threw e, d)
            | Inr (task, d') \<Rightarrow> (Reply 200 (TaskBody task), d')))"

definition post_tasks_plain :: "verifier \<Rightarrow> headers \<Rightarrow> task_fields \<Rightarrow> db \<Rightarrow> response \<times> db" where
  "post_tasks_plain verify hdrs body d =
     (case userPayload_of verify hdrs of
        Inl e \<Rightarrow> (Threw e, d)
      | Inr None \<Rightarrow> (Reply 200 (ErrorBody ''Unauthorized''), d)
      | Inr (Some userPayload) \<Rightarrow> post_tasks_for_plain userPayload body d)"

definition get_tasks_for_plain :: "JwtUserPayload \<Rightarrow> task_query \<Rightarrow> db \<Rightarrow> response \<times> db" where
  "get_tasks_for_plain userPayload query d =
     (let where0 = \<lparr>w_userId = payload_id userPayload, w_date = None, w_title_contains = None\<rparr>;
          where1 = (case q_date query of
                      Some dt \<Rightarrow> if dt \<noteq> [] then where0\<lparr>w_date := Some dt\<rparr> else where0
                    | None \<Rightarrow> where0);
          where2 = (case q_search query of
                      Some s \<Rightarrow> if s \<noteq> [] then where1\<lparr>w_title_contains := Some s\<rparr> else where1
                    | None \<Rightarrow> where1)
      in (case prisma_task_findMany where2 d of
            Inl e \<Rightarrow> (Threw e, d)
          | Inr found \<Rightarrow> (Reply 200 (TasksBody found), d)))"

definition get_tasks_plain :: "verifier \<Rightarrow> headers \<Rightarrow> task_query \<Rightarrow> db \<Rightarrow> response \<times> db" where
  "get_tasks_plain verify hdrs query d =
     (case userPayload_of verify hdrs of
        Inl e \<Rightarrow> (Threw e, d)
      | Inr None \<Rightarrow> (Reply 200 (ErrorBody ''Unauthorized''), d)
      | Inr (Some userPayload) \<Rightarrow> get_tasks_for_plain userPayload query d)"

definition patch_tasks_id_for_plain ::
  "JwtUserPayload \<Rightarrow> int \<Rightarrow> task_fields \<Rightarrow> db \<Rightarrow> response \<times> db" where
  "patch_tasks_id_for_plain userPayload i body d =
     (case prisma_task_findUnique i d of
        None \<Rightarrow> (Reply 200 (ErrorBody ''Task not found''), d)
      | Some task \<Rightarrow>
          if userId task \<noteq> payload_id userPayload
          then (Reply 200 (ErrorBody ''Task not found''), d)
          else (case prisma_task_update i body d of
                  Inl e \<Rightarrow> (Threw e, d)
                | Inr (updated, d') \<Rightarrow> (Reply 200 (TaskBody updated), d')))"

definition patch_tasks_id_plain ::
  "verifier \<Rightarrow> headers \<Rightarrow> int \<Rightarrow> task_fields \<Rightarrow> db \<Rightarrow> response \<times> db" where
  "patch_tasks_id_plain verify hdrs i body d =
     (case userPayload_of verify hdrs of
        Inl e \<Rightarrow> (Threw e, d)
      | Inr None \<Rightarrow> (Reply 200 (ErrorBody ''Unauthorized''), d)
      | Inr (Some userPayload) \<Rightarrow> patch_tasks_id_for_plain userPayload i body d)"

definition get_profile_for_plain :: "JwtUserPayload \<Rightarrow> db \<Rightarrow> response \<times> db" where
  "get_profile_for_plain userPayload d =
     (case prisma_user_findUnique_tasks (payload_id userPayload) d of
        None \<Rightarrow> (Reply 200 (ErrorBody ''User not found''), d)
      | Some (u, user_tasks) \<Rightarrow>
          (Reply 200 (ProfileBody (email u) (image_path u)
                        (length user_tasks) (length (filter isChecked user_tasks))), d))"

definition get_profile_plain :: "verifier \<Rightarrow> headers \<Rightarrow> db \<Rightarrow> response \<times> db" where
  "get_profile_plain verify hdrs d =
     (case userPayload_of verify hdrs of
        Inl e \<Rightarrow> (Threw e, d)
      | Inr None \<Rightarrow> (Reply 200 (ErrorBody ''Unauthorized''), d)
      | Inr (Some userPayload) \<Rightarrow> get_profile_for_plain userPayload d)"

text \<open>
  \<^verbatim>\<open>POST /register\<close> exists in this variant only. \<^verbatim>\<open>bcrypt.hash(password, rounds)\<close>
  is a parameter: the digest it returns for this call.
\<close>

record credentials =
  c_email :: jsval
  c_password :: jsval

text \<open>\<^verbatim>\<open>prisma.user.findUnique({ where: { email } })\<close>.\<close>

definition prisma_user_findUnique_email :: "string \<Rightarrow> db \<Rightarrow> user option" where
  "prisma_user_findUnique_email e d = find (\<lambda>u. email u = e) (users d)"

text \<open>
  \<^verbatim>\<open>prisma.user.create({ data: { email, password, image } })\<close>; the column
  \<^verbatim>\<open>email\<close> is unique, as the lookup by it requires.
\<close>

definition prisma_user_create :: "string \<Rightarrow> string \<Rightarrow> string \<Rightarrow> db \<Rightarrow> exn + (user \<times> db)" where
  "prisma_user_create e pw img d =
     (if \<exists>u \<in> set (users d). email u = e then Inl UniqueConstraintViolation
      else (let row = \<lparr>user_id = next_user_id d, email = e, password = pw, image_path = img\<rparr>
            in Inr (row, d\<lparr>users := users d @ [row], next_user_id := next_user_id d + 1\<rparr>)))"

definition post_register :: "(string \<Rightarrow> nat \<Rightarrow> string) \<Rightarrow> credentials \<Rightarrow> db \<Rightarrow> response \<times> db" where
  "post_register hash body d =
     (if \<not> truthy (c_email body) \<or> \<not> truthy (c_password body)
      then (Reply 200 (ErrorBody ''Email and password required''), d)
      else (case c_email body of
              JStr e \<Rightarrow>
                (case prisma_user_findUnique_email e d of
                   Some existing \<Rightarrow> (Reply 200 (ErrorBody ''User exists''), d)
                 | None \<Rightarrow>
                     (case c_password body of
                        JStr pw \<Rightarrow>
                          (case prisma_user_create e (hash pw 10) [] d of
                             Inl ex \<Rightarrow> (Threw ex, d)
                           | Inr (u, d') \<Rightarrow> (Reply 200 (MessageBody ''Registered successfully''), d'))
                      | _ \<Rightarrow> (Threw IllegalArguments, d)))
            | _ \<Rightarrow> (Threw PrismaValidationError, d)))"

subsection \<open>The image upload of \<^verbatim>\<open>src/src/index.ts\<close>\<close>

text \<open>
  The uploaded file: \<^verbatim>\<open>file.name\<close>, \<^verbatim>\<open>file.type\<close> and the bytes of
  \<^verbatim>\<open>file.arrayBuffer()\<close>; \<^verbatim>\<open>file.size\<close> is their number.
\<close>

record upload =
  file_name :: string
  file_type :: string
  file_bytes :: "nat list"

definition file_size :: "upload \<Rightarrow> nat" where
  "file_size f = length (file_bytes f)"

text \<open>The file system: the directories made and the files written, by path.\<close>

record fs =
  dirs :: "string set"
  files :: "string \<rightharpoonup> nat list"

text \<open>
  \<^verbatim>\<open>path.join(a, b)\<close> for a directory \<open>a\<close> without a trailing separator and a plain
  name \<open>b\<close>.
\<close>

definition path_join :: "string \<Rightarrow> string \<Rightarrow> string" where
  "path_join a b = a @ ''/'' @ b"

text \<open>
  The decimal digits of a number, as a template literal prints a number of magnitude
  below \<open>10 ^ 21\<close> (from there on JavaScript prints an exponent).
\<close>

function show_nat :: "nat \<Rightarrow> string" where
  "show_nat n =
     (if n < 10 then [char_of (48 + n)] else show_nat (n div 10) @ [char_of (48 + n mod 10)])"
  by pat_completeness auto
termination
  by (relation "measure (\<lambda>n. n)") auto

declare show_nat.simps [simp del]

definition show_int :: "int \<Rightarrow> string" where
  "show_int i = (if i < 0 then CHR ''-'' # show_nat (nat (- i)) else show_nat (nat i))"

text \<open>\<^verbatim>\<open>prisma.user.update({ where: { id }, data: { image } })\<close>.\<close>

definition prisma_user_update_image :: "int \<Rightarrow> string \<Rightarrow> db \<Rightarrow> exn + db" where
  "prisma_user_update_image i img d =
     (case find (\<lambda>u. user_id u = i) (users d) of
        None \<Rightarrow> Inl RecordNotFound
      | Some u \<Rightarrow>
          Inr (d\<lparr>users := map (\<lambda>r. if user_id r = i then r\<lparr>image_path := img\<rparr> else r) (users d)\<rparr>))"

text \<open>
  The handler of \<^verbatim>\<open>POST /profile/image\<close>. \<open>cwd\<close> is \<^verbatim>\<open>process.cwd()\<close>, \<open>now\<close> is
  \<^verbatim>\<open>Date.now()\<close>, \<open>extname\<close> is \<^verbatim>\<open>path.extname\<close>; \<open>file\<close> is \<^verbatim>\<open>body.image\<close>.
  \<^verbatim>\<open>mkdir\<close> and \<^verbatim>\<open>writeFile\<close> are taken to succeed.
\<close>

definition post_profile_image_for ::
  "string \<Rightarrow> nat \<Rightarrow> (string \<Rightarrow> string) \<Rightarrow> JwtUserPayload \<Rightarrow> upload option \<Rightarrow> db \<Rightarrow> fs
     \<Rightarrow> response \<times> db \<times> fs" where
  "post_profile_image_for cwd now extname userPayload file d disk =
     (case file of
        None \<Rightarrow> (Reply 400 (ErrorBody ''No image file uploaded''), d, disk)
      | Some f \<Rightarrow>
          if file_name f = [] then (Reply 400 (ErrorBody ''No image file uploaded''), d, disk)
          else
            (let uploadsDir = path_join cwd ''uploads'';
                 disk1 = disk\<lparr>dirs := insert uploadsDir (dirs disk)\<rparr>;
                 ext = extname (file_name f);
                 filename = ''user_'' @ show_int (payload_id userPayload) @ ''_'' @ show_nat now @ ext;
                 filepath = path_join uploadsDir filename;
                 disk2 = disk1\<lparr>files := (files disk1)(filepath \<mapsto> file_bytes f)\<rparr>;
                 relativePath = ''uploads/'' @ filename
             in (case prisma_user_update_image (payload_id userPayload) relativePath d of
                   Inl e \<Rightarrow> (Threw e, d, disk2)
                 | Inr d' \<Rightarrow> (Reply 200 (ImageBody ''Image updated'' relativePath), d', disk2))))"

definition post_profile_image ::
  "verifier \<Rightarrow> string \<Rightarrow> nat \<Rightarrow> (string \<Rightarrow> string) \<Rightarrow> headers \<Rightarrow> upload option \<Rightarrow> db \<Rightarrow> fs
     \<Rightarrow> response \<times> db \<times> fs" where
  "post_profile_image verify cwd now extname hdrs file d disk =
     (case userPayload_of verify hdrs of
        Inl e \<Rightarrow> (Threw e, d, disk)
      | Inr None \<Rightarrow> (Reply 401 (ErrorBody ''Unauthorized''), d, disk)
      | Inr (Some userPayload) \<Rightarrow> post_profile_image_for cwd now extname userPayload file d disk)"

subsection \<open>Validation of the declared schemas\<close>

text \<open>
  Beside each handler the sources declare a schema of the request. Checking a request
  against it is the work of the framework (Elysia), whose code is not among the sources;
  the specification says of it that input is "validated once at the boundary before
  entering service logic". A request outside the schema is answered by the framework
  (\<open>SchemaRejected\<close>) and the handler does not run. \<^verbatim>\<open>GET /profile\<close> declares no schema
  of the request, and the record \<open>task_query\<close> holds exactly the queries that fit the
  schema of \<^verbatim>\<open>GET /tasks\<close>, so these two routes are their handlers.
\<close>

text \<open>
  Modelled from the spec: the framework's check of the body of \<^verbatim>\<open>POST /tasks\<close> against
  \<^verbatim>\<open>t.Object({ title: t.String(), date: t.String(), isChecked: t.Boolean() })\<close>: "all
  three fields required and type-checked".
\<close>

definition task_body_schema :: "task_fields \<Rightarrow> bool" where
  "task_body_schema body =
     ((case f_title body of JStr s \<Rightarrow> True | _ \<Rightarrow> False)
      \<and> (case f_date body of JStr s \<Rightarrow> True | _ \<Rightarrow> False)
      \<and> (case f_isChecked body of JBool b \<Rightarrow> True | _ \<Rightarrow> False))"

text \<open>
  Modelled from the spec: the framework's check of the body of \<^verbatim>\<open>PATCH /tasks/:id\<close>
  against the declared object of three optional fields, "partial
  \<^verbatim>\<open>{title?, date?, isChecked?}\<close>": each field is absent or of its type.
\<close>

definition patch_body_schema :: "task_fields \<Rightarrow> bool" where
  "patch_body_schema body =
     ((case f_title body of JUndefined \<Rightarrow> True | JStr s \<Rightarrow> True | _ \<Rightarrow> False)
      \<and> (case f_date body of JUndefined \<Rightarrow> True | JStr s \<Rightarrow> True | _ \<Rightarrow> False)
      \<and> (case f_isChecked body of JUndefined \<Rightarrow> True | JBool b \<Rightarrow> True | _ \<Rightarrow> False))"

text \<open>
  Modelled from the spec: the framework's check of the body of
  \<^verbatim>\<open>POST /profile/image\<close> against
  \<^verbatim>\<open>t.File({ type: ['image/jpeg', 'image/png', 'image/gif'], maxSize: 5 * 1024 * 1024 })\<close>.
  The specification says: "Validates content type against an allow-list {jpeg, png, gif}
  and a maximum size (5 MiB) before delegating". A file must be there, of a listed type
  and of at most \<^verbatim>\<open>maxSize\<close> bytes; what the framework requires of the file beyond the
  declared type and size (that its bytes are an image of that type) is the parameter
  \<open>content_ok\<close>.
\<close>

definition image_schema :: "(upload \<Rightarrow> bool) \<Rightarrow> upload option \<Rightarrow> bool" where
  "image_schema content_ok file =
     (case file of
        None \<Rightarrow> False
      | Some f \<Rightarrow>
          file_type f \<in> set [''image/jpeg'', ''image/png'', ''image/gif'']
          \<and> file_size f \<le> 5 * 1024 * 1024
          \<and> content_ok f)"

text \<open>
  Modelled from the spec: the route \<^verbatim>\<open>POST /tasks\<close> of \<^verbatim>\<open>index.ts\<close>, the framework's
  check and then the handler ("validated once at the boundary before entering service
  logic").
\<close>

definition post_tasks_route :: "verifier \<Rightarrow> headers \<Rightarrow> task_fields \<Rightarrow> db \<Rightarrow> response \<times> db" where
  "post_tasks_route verify hdrs body d =
     (if \<not> task_body_schema body then (SchemaRejected, d)
      else post_tasks verify hdrs body d)"

text \<open>
  Modelled from the spec: the route \<^verbatim>\<open>POST /tasks\<close> of the variant, the framework's
  check and then the handler.
\<close>

definition post_tasks_plain_route ::
  "verifier \<Rightarrow> headers \<Rightarrow> task_fields \<Rightarrow> db \<Rightarrow> response \<times> db" where
  "post_tasks_plain_route verify hdrs body d =
     (if \<not> task_body_schema body then (SchemaRejected, d)
      else post_tasks_plain verify hdrs body d)"

text \<open>
  Modelled from the spec: the route \<^verbatim>\<open>PATCH /tasks/:id\<close> of \<^verbatim>\<open>index.ts\<close>, the
  framework's check and then the handler.
\<close>

definition patch_tasks_id_route ::
  "verifier \<Rightarrow> headers \<Rightarrow> int \<Rightarrow> task_fields \<Rightarrow> db \<Rightarrow> response \<times> db" where
  "patch_tasks_id_route verify hdrs i body d =
     (if \<not> patch_body_schema body then (SchemaRejected, d)
      else patch_tasks_id verify hdrs i body d)"

text \<open>
  Modelled from the spec: the route \<^verbatim>\<open>POST /profile/image\<close>, the framework's check and
  then the handler: "oversized or wrong-type uploads are rejected without writing
  anything".
\<close>

definition post_profile_image_route ::
  "(upload \<Rightarrow> bool) \<Rightarrow> verifier \<Rightarrow> string \<Rightarrow> nat \<Rightarrow> (string \<Rightarrow> string) \<Rightarrow> headers
     \<Rightarrow> upload option \<Rightarrow> db \<Rightarrow> fs \<Rightarrow> response \<times> db \<times> fs" where
  "post_profile_image_route content_ok verify cwd now extname hdrs file d disk =
     (if \<not> image_schema content_ok file then (SchemaRejected, d, disk)
      else post_profile_image verify cwd now extname hdrs file d disk)"

subsection \<open>The token verifier and the header scheme as the specification words them\<close>

text \<open>
  Modelled from the spec: \<^verbatim>\<open>jwt.verify\<close> of the \<^verbatim>\<open>jsonwebtoken\<close> package, whose code
  is not among the sources. The specification says that verification "checks signature
  integrity and expiry", fails on a token that is malformed, badly signed or expired, and
  that "a token with an expiry exactly equal to now is treated as expired". \<open>decode\<close>
  parses a token into the identity and the expiry it carries (\<open>None\<close> for a malformed
  one), \<open>signature_ok\<close> checks the signature against the secret, \<open>now\<close> is the clock.
\<close>

record token_claims =
  tok_payload :: JwtUserPayload
  tok_exp :: nat

definition jwt_verify ::
  "(string \<Rightarrow> token_claims option) \<Rightarrow> (string \<Rightarrow> string \<Rightarrow> bool) \<Rightarrow> nat \<Rightarrow> verifier" where
  "jwt_verify decode signature_ok now tok secret =
     (case decode tok of
        None \<Rightarrow> Inl JsonWebTokenError
      | Some c \<Rightarrow>
          if \<not> signature_ok tok secret then Inl JsonWebTokenError
          else if tok_exp c \<le> now then Inl TokenExpiredError
          else Inr (tok_payload c))"

text \<open>
  The extraction as the specification words it, "split on whitespace, take the second
  token": the words of the header between runs of blanks, and the second of them.
\<close>

definition is_space :: "char \<Rightarrow> bool" where
  "is_space c = (c = CHR '' '' \<or> c = CHR 0x09 \<or> c = CHR 0x0A \<or> c = CHR 0x0D)"

fun words_from :: "string \<Rightarrow> string \<Rightarrow> string list" where
  "words_from cur [] = (if cur = [] then [] else [cur])"
| "words_from cur (x # xs) =
     (if is_space x then (if cur = [] then words_from [] xs else cur # words_from [] xs)
      else words_from (cur @ [x]) xs)"

definition spec_bearer_token :: "headers \<Rightarrow> string option" where
  "spec_bearer_token hdrs =
     (case hdrs ''authorization'' of
        None \<Rightarrow> None
      | Some authHeader \<Rightarrow> index1 (words_from [] authHeader))"

subsection \<open>The listing and the two variants as the specification words them\<close>

text \<open>
  The selection of \<^verbatim>\<open>GET /tasks\<close> as the specification words it: the task is the
  owner's, "if dateFilter present, exact match on date; if searchFilter present,
  case-insensitive substring match on title". Case is folded for the letters A to Z.
\<close>

definition toLower :: "char \<Rightarrow> char" where
  "toLower c =
     (let n = (of_char c :: nat) in if 65 \<le> n \<and> n \<le> 90 then char_of (n + 32) else c)"

definition contains_insensitive :: "string \<Rightarrow> string \<Rightarrow> bool" where
  "contains_insensitive needle hay = sublist (map toLower needle) (map toLower hay)"

definition spec_list_selects :: "int \<Rightarrow> task_query \<Rightarrow> task \<Rightarrow> bool" where
  "spec_list_selects owner q t =
     (userId t = owner
      \<and> (case q_date q of None \<Rightarrow> True | Some dt \<Rightarrow> date t = dt)
      \<and> (case q_search q of None \<Rightarrow> True | Some s \<Rightarrow> contains_insensitive s (title t)))"

text \<open>
  The two variants are compared up to the status of a reply: \<open>erase_status\<close> sends every
  reply with status 200, as the variant does. \<open>status_ok\<close> says how \<^verbatim>\<open>index.ts\<close>
  encodes an outcome: an error body under 400, 401 or 404, any other body under 200.
\<close>

fun erase_status :: "response \<Rightarrow> response" where
  "erase_status (Reply s b) = Reply 200 b"
| "erase_status r = r"

fun is_error :: "body \<Rightarrow> bool" where
  "is_error (ErrorBody m) = True"
| "is_error b = False"

definition status_ok :: "response \<Rightarrow> bool" where
  "status_ok r =
     (case r of
        Reply s b \<Rightarrow> (if is_error b then s \<in> {400, 401, 404} else s = 200)
      | _ \<Rightarrow> True)"

subsection \<open>Example data\<close>

text \<open>
  A caller, a verifier that accepts the one token \<^verbatim>\<open>abc\<close> for her, and a store with
  two users and a task of each.
\<close>

definition alice :: JwtUserPayload where
  "alice = \<lparr>payload_id = 1, payload_email = ''alice@example.com''\<rparr>"

definition verify_abc :: verifier where
  "verify_abc tok secret =
     (if tok = ''abc'' \<and> secret = ''supersecretkey'' then Inr alice else Inl JsonWebTokenError)"

definition hdrs_abc :: headers where
  "hdrs_abc = [''authorization'' \<mapsto> ''Bearer abc'']"

text \<open>The same header with a tab between the scheme and the token.\<close>

definition hdrs_tab :: headers where
  "hdrs_tab = [''authorization'' \<mapsto> ''Bearer'' @ [CHR 0x09] @ ''abc'']"

definition task1 :: task where
  "task1 = \<lparr>task_id = 1, userId = 1, title = ''t'', date = ''2024-01-01'', isChecked = False\<rparr>"

definition task2 :: task where
  "task2 = \<lparr>task_id = 2, userId = 2, title = ''t'', date = ''2024-01-01'', isChecked = True\<rparr>"

definition user1 :: user where
  "user1 = \<lparr>user_id = 1, email = ''alice@example.com'', password = ''$2a$10$h1'', image_path = []\<rparr>"

definition user2 :: user where
  "user2 = \<lparr>user_id = 2, email = ''bob@example.com'', password = ''$2a$10$h2'', image_path = []\<rparr>"

definition db1 :: db where
  "db1 = \<lparr>users = [user1, user2], tasks = [task1, task2], next_user_id = 3, next_task_id = 3\<rparr>"

text \<open>A store where the caller has three tasks, two of them checked.\<close>

definition db3 :: db where
  "db3 = \<lparr>users = [user1, user2],
          tasks = [task1\<lparr>isChecked := True\<rparr>, task2, task1\<lparr>task_id := 3, isChecked := True\<rparr>,
                   task1\<lparr>task_id := 4\<rparr>],
          next_user_id = 3, next_task_id = 5\<rparr>"

definition only_checked :: task_fields where
  "only_checked = \<lparr>f_title = JUndefined, f_date = JUndefined, f_isChecked = JBool True\<rparr>"

definition valid_body :: task_fields where
  "valid_body = \<lparr>f_title = JStr ''t'', f_date = JStr ''2024-01-01'', f_isChecked = JBool False\<rparr>"

definition no_isChecked :: task_fields where
  "no_isChecked = \<lparr>f_title = JStr ''t'', f_date = JStr ''2024-01-01'', f_isChecked = JUndefined\<rparr>"

definition empty_date_query :: task_query where
  "empty_date_query = \<lparr>q_date = Some [], q_search = None\<rparr>"

definition date_filter :: task_query where
  "date_filter = \<lparr>q_date = Some ''2024-01-01'', q_search = None\<rparr>"

text \<open>
  A caller whose token verifies although no user of the store has her id, and the
  verifier that accepts the token \<^verbatim>\<open>abc\<close> for her.
\<close>

definition ghost :: JwtUserPayload where
  "ghost = \<lparr>payload_id = 7, payload_email = ''ghost@example.com''\<rparr>"

definition verify_ghost :: verifier where
  "verify_ghost tok secret =
     (if tok = ''abc'' \<and> secret = ''supersecretkey'' then Inr ghost else Inl JsonWebTokenError)"

definition empty_title :: task_fields where
  "empty_title = \<lparr>f_title = JStr [], f_date = JStr ''2024-01-01'', f_isChecked = JBool False\<rparr>"

text \<open>A token that carries the caller and expires at second 1000, signed with the secret.\<close>

definition decode_abc :: "string \<Rightarrow> token_claims option" where
  "decode_abc tok = (if tok = ''abc'' then Some \<lparr>tok_payload = alice, tok_exp = 1000\<rparr> else None)"

definition signature_abc :: "string \<Rightarrow> string \<Rightarrow> bool" where
  "signature_abc tok secret = (tok = ''abc'' \<and> secret = ''supersecretkey'')"

text \<open>
  An upload of six mebibytes, a PNG image of one pixel, a check of the content that asks
  for the signature of a PNG file, a disk, an extension and a digest.
\<close>

definition big_image :: upload where
  "big_image = \<lparr>file_name = ''a.png'', file_type = ''image/png'',
                 file_bytes = replicate (6 * 1024 * 1024) 0\<rparr>"

definition pixel_bytes :: "nat list" where
  "pixel_bytes =
     [137, 80, 78, 71, 13, 10, 26, 10, 0, 0, 0, 13, 73, 72, 68, 82, 0, 0, 0, 1, 0, 0,
      0, 1, 8, 6, 0, 0, 0, 31, 21, 196, 137, 0, 0, 0, 13, 73, 68, 65, 84, 120, 218,
      99, 100, 96, 248, 95, 15, 0, 2, 135, 1, 128, 235, 71, 186, 146, 0, 0, 0, 0, 73,
      69, 78, 68, 174, 66, 96, 130]"

definition small_image :: upload where
  "small_image = \<lparr>file_name = ''a.png'', file_type = ''image/png'', file_bytes = pixel_bytes\<rparr>"

definition png_signature :: "upload \<Rightarrow> bool" where
  "png_signature f = (take 8 (file_bytes f) = [137, 80, 78, 71, 13, 10, 26, 10])"

definition disk0 :: fs where
  "disk0 = \<lparr>dirs = {}, files = Map.empty\<rparr>"

definition extname_example :: "string \<Rightarrow> string" where
  "extname_example name = dropWhile (\<lambda>c. c \<noteq> CHR ''.'') name"

definition hash_example :: "string \<Rightarrow> nat \<Rightarrow> string" where
  "hash_example pw rounds = ''$2a$'' @ pw"

definition fresh_credentials :: credentials where
  "fresh_credentials = \<lparr>c_email = JStr ''carol@example.com'', c_password = JStr ''secret''\<rparr>"

section \<open>Properties\<close>

lemma userPayload_abc: "userPayload_of verify_abc hdrs_abc = Inr (Some alice)"
  by (simp add: userPayload_of_def getUserFromToken_def bearer_token_def hdrs_abc_def
      verify_abc_def JWT_SECRET_def)

lemma find_task1: "prisma_task_findUnique 1 db1 = Some task1"
  by (simp add: prisma_task_findUnique_def db1_def task1_def)

subsection \<open>Updating a task that is missing or owned by someone else\<close>

text \<open>
  C1. For an authenticated caller and a task id, \<^verbatim>\<open>PATCH /tasks/:id\<close> answers
  "Task not found" when no task has that id and when the task belongs to another user:
  the same response in both cases (status 404 in \<^verbatim>\<open>index.ts\<close>, the plain error object
  in the variant), never "Unauthorized", whatever the body, and the store is unchanged.
\<close>

theorem patch_not_found:
  assumes "userPayload_of verify hdrs = Inr (Some u)"
    and "prisma_task_findUnique i d = None
         \<or> (\<exists>t. prisma_task_findUnique i d = Some t \<and> userId t \<noteq> payload_id u)"
  shows "patch_tasks_id verify hdrs i body d = (Reply 404 (ErrorBody ''Task not found''), d)
       \<and> patch_tasks_id_plain verify hdrs i body d
           = (Reply 200 (ErrorBody ''Task not found''), d)"
  using assms
  by (auto simp: patch_tasks_id_def patch_tasks_id_for_def patch_tasks_id_plain_def
      patch_tasks_id_for_plain_def)

theorem patch_not_found_witness:
  "patch_tasks_id verify_abc hdrs_abc 99 only_checked db1
     = (Reply 404 (ErrorBody ''Task not found''), db1)
   \<and> patch_tasks_id verify_abc hdrs_abc 2 only_checked db1
     = (Reply 404 (ErrorBody ''Task not found''), db1)
   \<and> patch_tasks_id_plain verify_abc hdrs_abc 99 only_checked db1
     = (Reply 200 (ErrorBody ''Task not found''), db1)
   \<and> patch_tasks_id_plain verify_abc hdrs_abc 2 only_checked db1
     = (Reply 200 (ErrorBody ''Task not found''), db1)"
proof -
  have missing: "prisma_task_findUnique 99 db1 = None"
    by (simp add: prisma_task_findUnique_def db1_def task1_def task2_def)
  have foreign: "\<exists>t. prisma_task_findUnique 2 db1 = Some t \<and> userId t \<noteq> payload_id alice"
    by (simp add: prisma_task_findUnique_def db1_def task1_def task2_def alice_def)
  from patch_not_found [OF userPayload_abc disjI1 [OF missing], of only_checked]
    patch_not_found [OF userPayload_abc disjI2 [OF foreign], of only_checked]
  show ?thesis by simp
qed

subsection \<open>Listing tasks\<close>

text \<open>
  C2, as stated, fails: a \<^verbatim>\<open>date\<close> filter that is present but empty
  (\<^verbatim>\<open>GET /tasks?date=\<close>) is dropped by \<^verbatim>\<open>if (date)\<close>, so the caller's task dated
  2024-01-01 is returned although its date is not the filter.
\<close>

theorem list_empty_date_counterexample:
  "get_tasks verify_abc hdrs_abc empty_date_query db1 = (Reply 200 (TasksBody [task1]), db1)
   \<and> get_tasks_plain verify_abc hdrs_abc empty_date_query db1
       = (Reply 200 (TasksBody [task1]), db1)
   \<and> q_date empty_date_query = Some []
   \<and> date task1 = ''2024-01-01''
   \<and> \<not> spec_list_selects (payload_id alice) empty_date_query task1"
  by (simp add: get_tasks_def get_tasks_plain_def userPayload_abc get_tasks_for_def
      get_tasks_for_plain_def empty_date_query_def prisma_task_findMany_def matches_def
      db1_def task1_def task2_def alice_def spec_list_selects_def)

text \<open>
  A search filter that is present and not empty reaches the store as
  \<^verbatim>\<open>title: { contains, mode: 'insensitive' }\<close>, which the client of the SQLite store
  refuses: the request ends in an exception, in both variants, and no list is returned.
\<close>

lemma get_tasks_for_search:
  assumes "q_search q = Some s" and "s \<noteq> []"
  shows "get_tasks_for u q d = (Threw PrismaValidationError, d)"
    and "get_tasks_for_plain u q d = (Threw PrismaValidationError, d)"
  using assms
  by (auto simp: get_tasks_for_def get_tasks_for_plain_def Let_def prisma_task_findMany_def
      split: option.splits)

lemma get_tasks_for_no_search:
  assumes "q_search q = None \<or> q_search q = Some []"
  shows "get_tasks_for u q d
     = (Reply 200 (TasksBody (filter (\<lambda>t. userId t = payload_id u
           \<and> (\<forall>dt. q_date q = Some dt \<and> dt \<noteq> [] \<longrightarrow> date t = dt)) (tasks d))), d)"
proof -
  have m: "matches \<lparr>w_userId = payload_id u,
             w_date = (case q_date q of Some dt \<Rightarrow> if dt \<noteq> [] then Some dt else None
                       | None \<Rightarrow> None),
             w_title_contains = None\<rparr> t
        = (userId t = payload_id u
           \<and> (\<forall>dt. q_date q = Some dt \<and> dt \<noteq> [] \<longrightarrow> date t = dt))" for t
    by (auto simp: matches_def split: option.splits)
  show ?thesis
    unfolding m [symmetric]
    using assms
    by (auto simp: get_tasks_for_def Let_def prisma_task_findMany_def split: option.splits)
qed

lemma get_tasks_for_owner:
  assumes "fst (get_tasks_for u q d) = Reply 200 (TasksBody ts)" and "t \<in> set ts"
  shows "userId t = payload_id u"
proof (cases "q_search q = None \<or> q_search q = Some []")
  case True
  from get_tasks_for_no_search [OF True, of u d] assms show ?thesis
    by auto
next
  case False
  then obtain s where "q_search q = Some s" and "s \<noteq> []"
    by (cases "q_search q") auto
  from get_tasks_for_search(1) [OF this, of u d] assms show ?thesis
    by simp
qed

text \<open>
  C2, amended. For an authenticated caller, \<^verbatim>\<open>GET /tasks\<close> without a search filter
  (absent or empty) returns, in the order of the store, exactly the tasks whose
  \<^verbatim>\<open>userId\<close> is the caller's id and whose date equals the date filter when that is
  present and not empty; an empty date filter is ignored like an absent one; with no
  filter, all and only the caller's tasks. Whatever the filters, a task of another user
  is never in a returned list. Both variants return the same.
\<close>

theorem list_tasks_filtered:
  assumes "userPayload_of verify hdrs = Inr (Some u)"
  shows "(q_search q = None \<or> q_search q = Some []
            \<longrightarrow> get_tasks verify hdrs q d
                  = (Reply 200 (TasksBody (filter (\<lambda>t. userId t = payload_id u
                        \<and> (\<forall>dt. q_date q = Some dt \<and> dt \<noteq> [] \<longrightarrow> date t = dt))
                       (tasks d))), d))
       \<and> get_tasks_plain verify hdrs q d = get_tasks verify hdrs q d
       \<and> (q_date q = None \<and> q_search q = None
            \<longrightarrow> get_tasks verify hdrs q d
                  = (Reply 200 (TasksBody (filter (\<lambda>t. userId t = payload_id u) (tasks d))), d))
       \<and> (\<forall>ts t. fst (get_tasks verify hdrs q d) = Reply 200 (TasksBody ts) \<and> t \<in> set ts
            \<longrightarrow> userId t = payload_id u)"
proof -
  have g: "get_tasks_for_plain u q d = get_tasks_for u q d"
    by (simp add: get_tasks_for_def get_tasks_for_plain_def)
  have eq: "get_tasks verify hdrs q d = get_tasks_for u q d"
    using assms by (simp add: get_tasks_def)
  have p: "get_tasks_plain verify hdrs q d = get_tasks verify hdrs q d"
    using assms g by (simp add: get_tasks_def get_tasks_plain_def)
  have a: "q_search q = None \<or> q_search q = Some []
            \<longrightarrow> get_tasks verify hdrs q d
                  = (Reply 200 (TasksBody (filter (\<lambda>t. userId t = payload_id u
                        \<and> (\<forall>dt. q_date q = Some dt \<and> dt \<noteq> [] \<longrightarrow> date t = dt))
                       (tasks d))), d)"
    unfolding eq using get_tasks_for_no_search [of q u d] by blast
  have b: "q_date q = None \<and> q_search q = None
            \<longrightarrow> get_tasks verify hdrs q d
                  = (Reply 200 (TasksBody (filter (\<lambda>t. userId t = payload_id u) (tasks d))), d)"
  proof
    assume n: "q_date q = None \<and> q_search q = None"
    then have "get_tasks_for u q d
      = (Reply 200 (TasksBody (filter (\<lambda>t. userId t = payload_id u
           \<and> (\<forall>dt. q_date q = Some dt \<and> dt \<noteq> [] \<longrightarrow> date t = dt)) (tasks d))), d)"
      by (intro get_tasks_for_no_search) simp
    with n show "get_tasks verify hdrs q d
      = (Reply 200 (TasksBody (filter (\<lambda>t. userId t = payload_id u) (tasks d))), d)"
      unfolding eq by simp
  qed
  have c: "\<forall>ts t. fst (get_tasks verify hdrs q d) = Reply 200 (TasksBody ts) \<and> t \<in> set ts
            \<longrightarrow> userId t = payload_id u"
    unfolding eq using get_tasks_for_owner [of u q d] by blast
  show ?thesis
    by (rule conjI [OF a conjI [OF p conjI [OF b c]]])
qed

theorem list_tasks_filtered_witness:
  "get_tasks verify_abc hdrs_abc date_filter db1 = (Reply 200 (TasksBody [task1]), db1)
   \<and> get_tasks_plain verify_abc hdrs_abc date_filter db1 = (Reply 200 (TasksBody [task1]), db1)"
proof -
  have none: "q_search date_filter = None \<or> q_search date_filter = Some []"
    by (simp add: date_filter_def)
  from list_tasks_filtered [OF userPayload_abc, of date_filter db1] none
  show ?thesis
    by (simp add: date_filter_def db1_def task1_def task2_def alice_def)
qed

subsection \<open>Partial update\<close>

lemma apply_data_fields:
  "task_id (apply_data body t) = task_id t"
  "userId (apply_data body t) = userId t"
  "title (apply_data body t) = (case f_title body of JStr s \<Rightarrow> s | _ \<Rightarrow> title t)"
  "date (apply_data body t) = (case f_date body of JStr s \<Rightarrow> s | _ \<Rightarrow> date t)"
  "isChecked (apply_data body t) = (case f_isChecked body of JBool b \<Rightarrow> b | _ \<Rightarrow> isChecked t)"
  by (auto simp: apply_data_def Let_def split: jsval.splits)

lemma find_map_same_id:
  "find (\<lambda>t. task_id t = j) (map (\<lambda>r. if task_id r = i then apply_data body r else r) ts)
     = (if j = i then map_option (apply_data body) (find (\<lambda>t. task_id t = i) ts)
        else find (\<lambda>t. task_id t = j) ts)"
  by (induction ts) (auto simp: apply_data_fields)

lemma filter_map_other_id:
  "filter (\<lambda>r. task_id r \<noteq> i) (map (\<lambda>r. if task_id r = i then apply_data body r else r) ts)
     = filter (\<lambda>r. task_id r \<noteq> i) ts"
  by (induction ts) (auto simp: apply_data_fields)

text \<open>
  C3. For a task that exists and is the caller's, and a partial-update body (each of
  \<^verbatim>\<open>title\<close>, \<^verbatim>\<open>date\<close>, \<^verbatim>\<open>isChecked\<close> absent or of its type), \<^verbatim>\<open>PATCH /tasks/:id\<close>
  returns and stores the task with exactly the present fields replaced: an absent field
  keeps its prior value, \<^verbatim>\<open>id\<close> and \<^verbatim>\<open>userId\<close> never change, and no other row of the
  store changes. Both variants do the same.
\<close>

theorem patch_partial_update:
  assumes auth: "userPayload_of verify hdrs = Inr (Some u)"
    and found: "prisma_task_findUnique i d = Some t"
    and owned: "userId t = payload_id u"
    and typed: "data_ok body"
  shows "\<exists>t' d'. patch_tasks_id verify hdrs i body d = (Reply 200 (TaskBody t'), d')
           \<and> patch_tasks_id_plain verify hdrs i body d = (Reply 200 (TaskBody t'), d')
           \<and> prisma_task_findUnique i d' = Some t'
           \<and> task_id t' = task_id t \<and> userId t' = userId t
           \<and> (f_title body = JUndefined \<longrightarrow> title t' = title t)
           \<and> (\<forall>s. f_title body = JStr s \<longrightarrow> title t' = s)
           \<and> (f_date body = JUndefined \<longrightarrow> date t' = date t)
           \<and> (\<forall>s. f_date body = JStr s \<longrightarrow> date t' = s)
           \<and> (f_isChecked body = JUndefined \<longrightarrow> isChecked t' = isChecked t)
           \<and> (\<forall>b. f_isChecked body = JBool b \<longrightarrow> isChecked t' = b)
           \<and> filter (\<lambda>r. task_id r \<noteq> i) (tasks d') = filter (\<lambda>r. task_id r \<noteq> i) (tasks d)
           \<and> map task_id (tasks d') = map task_id (tasks d)
           \<and> map userId (tasks d') = map userId (tasks d)
           \<and> users d' = users d"
proof -
  let ?t' = "apply_data body t"
  let ?d' = "d\<lparr>tasks := map (\<lambda>r. if task_id r = i then apply_data body r else r) (tasks d)\<rparr>"
  from found have f: "find (\<lambda>t. task_id t = i) (tasks d) = Some t"
    by (simp add: prisma_task_findUnique_def)
  have upd: "prisma_task_update i body d = Inr (?t', ?d')"
    using typed f by (simp add: prisma_task_update_def)
  have r1: "patch_tasks_id verify hdrs i body d = (Reply 200 (TaskBody ?t'), ?d')"
    using auth found owned upd by (simp add: patch_tasks_id_def patch_tasks_id_for_def)
  have r2: "patch_tasks_id_plain verify hdrs i body d = (Reply 200 (TaskBody ?t'), ?d')"
    using auth found owned upd
    by (simp add: patch_tasks_id_plain_def patch_tasks_id_for_plain_def)
  have stored: "prisma_task_findUnique i ?d' = Some ?t'"
    using f by (simp add: prisma_task_findUnique_def find_map_same_id)
  have others: "filter (\<lambda>r. task_id r \<noteq> i) (tasks ?d') = filter (\<lambda>r. task_id r \<noteq> i) (tasks d)"
    by (simp add: filter_map_other_id)
  have ids: "map task_id (tasks ?d') = map task_id (tasks d)"
    by (simp add: o_def apply_data_fields if_distrib cong: if_cong)
  have owners: "map userId (tasks ?d') = map userId (tasks d)"
    by (simp add: o_def apply_data_fields if_distrib cong: if_cong)
  show ?thesis
    using r1 r2 stored others ids owners
    by (intro exI [of _ ?t'] exI [of _ ?d']) (simp add: apply_data_fields)
qed

theorem patch_partial_update_witness:
  "\<exists>t' d'. patch_tasks_id verify_abc hdrs_abc 1 only_checked db1 = (Reply 200 (TaskBody t'), d')
     \<and> prisma_task_findUnique 1 d' = Some t'
     \<and> task_id t' = 1 \<and> userId t' = 1
     \<and> title t' = ''t'' \<and> date t' = ''2024-01-01'' \<and> isChecked t' = True"
proof -
  have owned: "userId task1 = payload_id alice"
    by (simp add: task1_def alice_def)
  have typed: "data_ok only_checked"
    by (simp add: data_ok_def only_checked_def)
  from patch_partial_update [OF userPayload_abc find_task1 owned typed]
  show ?thesis
    by (auto simp: only_checked_def task1_def)
qed

subsection \<open>The gate of the protected routes\<close>

text \<open>
  C4, as stated, fails twice. First, the handlers split the header at the single space
  character, not on whitespace: in a header whose scheme and token are separated by a
  tab the second whitespace-separated word is the token \<^verbatim>\<open>abc\<close>, which verifies, yet
  \<^verbatim>\<open>split(' ')\<close> has one element only and the request is answered Unauthorized.
  Second, a request without the header whose body is outside the declared schema is
  refused by the validation of the schema, before the handler looks at the header: the
  outcome is not Unauthorized.
\<close>

lemma big_image_size: "file_size big_image = 6291456"
  by (simp add: file_size_def big_image_def)

theorem bearer_whitespace_counterexample:
  "spec_bearer_token hdrs_tab = Some ''abc''
   \<and> verify_abc ''abc'' JWT_SECRET = Inr alice
   \<and> bearer_token hdrs_tab = None
   \<and> task_body_schema valid_body
   \<and> post_tasks_route verify_abc hdrs_tab valid_body db1
       = (Reply 401 (ErrorBody ''Unauthorized''), db1)
   \<and> post_tasks_route verify_abc Map.empty no_isChecked db1 = (SchemaRejected, db1)
   \<and> post_profile_image_route png_signature verify_abc ''/srv'' 1700 extname_example Map.empty
        (Some big_image) db1 disk0 = (SchemaRejected, db1, disk0)"
  by (simp add: spec_bearer_token_def hdrs_tab_def is_space_def verify_abc_def JWT_SECRET_def
      post_tasks_route_def task_body_schema_def valid_body_def no_isChecked_def
      post_tasks_def userPayload_of_def bearer_token_def getUserFromToken_def
      post_profile_image_route_def image_schema_def big_image_size)

text \<open>
  C4, amended. For every request to a protected route of \<^verbatim>\<open>index.ts\<close> that fits the
  schema declared for the route: the token is the element at index 1 of the
  \<^verbatim>\<open>Authorization\<close> header split at every single space character. The caller is
  unresolved exactly when the header is absent, has no such element, the element is
  empty, or \<^verbatim>\<open>jwt.verify\<close> fails on it; the request is then answered 401
  "Unauthorized" and the store and the files are left as they were. Otherwise the body
  of the handler runs with the verified payload.
\<close>

theorem protected_routes_gate:
  "(userPayload_of verify hdrs = Inr None
      \<longleftrightarrow> (case hdrs ''authorization'' of
             None \<Rightarrow> True
           | Some authHeader \<Rightarrow>
               (case index1 (split CHR '' '' authHeader) of
                  None \<Rightarrow> True
                | Some tok \<Rightarrow> tok = [] \<or> (\<exists>e. verify tok JWT_SECRET = Inl e))))
   \<and> (userPayload_of verify hdrs = Inr None
      \<longrightarrow> (task_body_schema body
            \<longrightarrow> post_tasks_route verify hdrs body d = (Reply 401 (ErrorBody ''Unauthorized''), d))
        \<and> get_tasks verify hdrs q d = (Reply 401 (ErrorBody ''Unauthorized''), d)
        \<and> (patch_body_schema patch
            \<longrightarrow> patch_tasks_id_route verify hdrs i patch d
                  = (Reply 401 (ErrorBody ''Unauthorized''), d))
        \<and> get_profile verify hdrs d = (Reply 401 (ErrorBody ''Unauthorized''), d)
        \<and> (image_schema content_ok img
            \<longrightarrow> post_profile_image_route content_ok verify cwd now extname hdrs img d disk
                  = (Reply 401 (ErrorBody ''Unauthorized''), d, disk)))
   \<and> (\<forall>authHeader tok u.
        hdrs ''authorization'' = Some authHeader
        \<and> index1 (split CHR '' '' authHeader) = Some tok
        \<and> tok \<noteq> [] \<and> verify tok JWT_SECRET = Inr u
      \<longrightarrow> (task_body_schema body
            \<longrightarrow> post_tasks_route verify hdrs body d = post_tasks_for u body d)
        \<and> get_tasks verify hdrs q d = get_tasks_for u q d
        \<and> (patch_body_schema patch
            \<longrightarrow> patch_tasks_id_route verify hdrs i patch d = patch_tasks_id_for u i patch d)
        \<and> get_profile verify hdrs d = get_profile_for u d
        \<and> (image_schema content_ok img
            \<longrightarrow> post_profile_image_route content_ok verify cwd now extname hdrs img d disk
                  = post_profile_image_for cwd now extname u img d disk))"
  by (auto simp: userPayload_of_def bearer_token_def getUserFromToken_def post_tasks_def
      get_tasks_def patch_tasks_id_def get_profile_def post_profile_image_def
      post_tasks_route_def patch_tasks_id_route_def post_profile_image_route_def
      split: option.splits sum.splits if_splits)

lemma small_image_fits: "image_schema png_signature (Some small_image)"
  by (simp add: image_schema_def small_image_def file_size_def pixel_bytes_def
      png_signature_def)

theorem protected_routes_gate_witness:
  "post_tasks_route verify_abc Map.empty valid_body db1
     = (Reply 401 (ErrorBody ''Unauthorized''), db1)
   \<and> post_tasks_route verify_abc hdrs_tab valid_body db1
     = (Reply 401 (ErrorBody ''Unauthorized''), db1)
   \<and> post_profile_image_route png_signature verify_abc ''/srv'' 1700 extname_example Map.empty
        (Some small_image) db1 disk0 = (Reply 401 (ErrorBody ''Unauthorized''), db1, disk0)
   \<and> post_tasks_route verify_abc hdrs_abc valid_body db1 = post_tasks_for alice valid_body db1
   \<and> patch_tasks_id_route verify_abc hdrs_abc 1 only_checked db1
     = patch_tasks_id_for alice 1 only_checked db1"
proof -
  have absent: "userPayload_of verify_abc Map.empty = Inr None"
    by (simp add: userPayload_of_def bearer_token_def getUserFromToken_def)
  have tab: "userPayload_of verify_abc hdrs_tab = Inr None"
    by (simp add: userPayload_of_def bearer_token_def getUserFromToken_def hdrs_tab_def)
  have hdr: "hdrs_abc ''authorization'' = Some ''Bearer abc''"
    by (simp add: hdrs_abc_def)
  have tok: "index1 (split CHR '' '' ''Bearer abc'') = Some ''abc''"
    by simp
  have ok: "verify_abc ''abc'' JWT_SECRET = Inr alice"
    by (simp add: verify_abc_def JWT_SECRET_def)
  have fits: "task_body_schema valid_body" "patch_body_schema only_checked"
    by (simp_all add: task_body_schema_def valid_body_def patch_body_schema_def
        only_checked_def)
  note gate = protected_routes_gate [where verify = verify_abc and d = db1 and body = valid_body
      and patch = only_checked and q = date_filter and i = 1 and cwd = "''/srv''"
      and now = 1700 and extname = extname_example and img = "Some small_image"
      and content_ok = png_signature and disk = disk0]
  from gate [where hdrs = Map.empty] absent fits small_image_fits
  have r1: "post_tasks_route verify_abc Map.empty valid_body db1
     = (Reply 401 (ErrorBody ''Unauthorized''), db1)"
    "post_profile_image_route png_signature verify_abc ''/srv'' 1700 extname_example Map.empty
        (Some small_image) db1 disk0 = (Reply 401 (ErrorBody ''Unauthorized''), db1, disk0)"
    by blast+
  from gate [where hdrs = hdrs_tab] tab fits
  have r2: "post_tasks_route verify_abc hdrs_tab valid_body db1
     = (Reply 401 (ErrorBody ''Unauthorized''), db1)"
    by blast
  from gate [where hdrs = hdrs_abc] hdr tok ok fits
  have r3: "post_tasks_route verify_abc hdrs_abc valid_body db1
      = post_tasks_for alice valid_body db1"
    "patch_tasks_id_route verify_abc hdrs_abc 1 only_checked db1
      = patch_tasks_id_for alice 1 only_checked db1"
    by blast+
  from r1 r2 r3 show ?thesis
    by simp
qed

subsection \<open>Token verification\<close>

text \<open>
  C5. \<^verbatim>\<open>getUserFromToken\<close> returns for every token and every behaviour of
  \<^verbatim>\<open>jwt.verify\<close>: an exception of the verifier becomes \<^verbatim>\<open>null\<close>, never an exception
  of the caller. With the verifier of the specification it returns the decoded identity
  exactly when the token is there and not empty, decodes, carries a good signature and
  has not expired; a token whose expiry equals the current time is answered \<^verbatim>\<open>null\<close>.
\<close>

theorem getUserFromToken_never_throws:
  "(\<exists>r. getUserFromToken verify token = Inr r)
   \<and> (getUserFromToken (jwt_verify decode signature_ok now) token = Inr (Some p)
        \<longleftrightarrow> (\<exists>tok c. token = Some tok \<and> tok \<noteq> [] \<and> decode tok = Some c
                    \<and> signature_ok tok JWT_SECRET \<and> now < tok_exp c \<and> p = tok_payload c))
   \<and> (\<forall>tok c. token = Some tok \<and> decode tok = Some c \<and> tok_exp c = now
        \<longrightarrow> getUserFromToken (jwt_verify decode signature_ok now) token = Inr None)"
  by (auto simp: getUserFromToken_def jwt_verify_def split: option.splits sum.splits if_splits)

theorem getUserFromToken_never_throws_witness:
  "getUserFromToken (jwt_verify decode_abc signature_abc 1000) (Some ''abc'') = Inr None
   \<and> getUserFromToken (jwt_verify decode_abc signature_abc 999) (Some ''abc'') = Inr (Some alice)
   \<and> getUserFromToken (jwt_verify decode_abc signature_abc 999) (Some ''abd'') = Inr None
   \<and> getUserFromToken (jwt_verify decode_abc signature_abc 999) None = Inr None"
proof -
  have dec: "decode_abc ''abc'' = Some \<lparr>tok_payload = alice, tok_exp = 1000\<rparr>"
    by (simp add: decode_abc_def)
  have sig: "signature_abc ''abc'' JWT_SECRET"
    by (simp add: signature_abc_def JWT_SECRET_def)
  from getUserFromToken_never_throws [of verify_abc "Some ''abc''" decode_abc signature_abc 1000]
    dec
  have at_expiry: "getUserFromToken (jwt_verify decode_abc signature_abc 1000) (Some ''abc'') = Inr None"
    by simp
  from getUserFromToken_never_throws
    [of verify_abc "Some ''abc''" decode_abc signature_abc 999 alice] dec sig
  have before: "getUserFromToken (jwt_verify decode_abc signature_abc 999) (Some ''abc'') = Inr (Some alice)"
    by simp
  have rest: "getUserFromToken (jwt_verify decode_abc signature_abc 999) (Some ''abd'') = Inr None"
    "getUserFromToken (jwt_verify decode_abc signature_abc 999) None = Inr None"
    by (simp_all add: getUserFromToken_def jwt_verify_def decode_abc_def)
  from at_expiry before rest show ?thesis
    by simp
qed

subsection \<open>Creating a task\<close>

text \<open>
  C6, as stated, fails: a caller whose token verifies but whose user row is no longer in
  the store sends a body with all three fields present and well-typed; the store
  refuses the row for its \<^verbatim>\<open>userId\<close>, the handler ends in an exception and no task is
  created, in both variants.
\<close>

theorem create_without_user_counterexample:
  "userPayload_of verify_ghost hdrs_abc = Inr (Some ghost)
   \<and> valid_body = \<lparr>f_title = JStr ''t'', f_date = JStr ''2024-01-01'', f_isChecked = JBool False\<rparr>
   \<and> post_tasks_route verify_ghost hdrs_abc valid_body db1 = (Threw ForeignKeyViolation, db1)
   \<and> post_tasks_plain_route verify_ghost hdrs_abc valid_body db1
       = (Threw ForeignKeyViolation, db1)"
  by (simp add: userPayload_of_def getUserFromToken_def bearer_token_def hdrs_abc_def
      verify_ghost_def JWT_SECRET_def valid_body_def post_tasks_route_def
      post_tasks_plain_route_def task_body_schema_def post_tasks_def post_tasks_plain_def
      post_tasks_for_def post_tasks_for_plain_def prisma_task_create_def ghost_def db1_def
      user1_def user2_def)

lemma schema_typed:
  "task_body_schema body
     \<longleftrightarrow> (\<exists>t dt c. f_title body = JStr t \<and> f_date body = JStr dt \<and> f_isChecked body = JBool c)"
  by (auto simp: task_body_schema_def split: jsval.splits)

lemma post_tasks_for_created:
  assumes "f_title body = JStr t" "t \<noteq> []" "f_date body = JStr dt" "dt \<noteq> []"
    and "f_isChecked body = JBool c"
    and "find (\<lambda>r. user_id r = payload_id u) (users d) = Some owner"
  shows "post_tasks_for u body d
           = (Reply 200 (TaskBody \<lparr>task_id = next_task_id d, userId = payload_id u,
                                    title = t, date = dt, isChecked = c\<rparr>),
              d\<lparr>tasks := tasks d @ [\<lparr>task_id = next_task_id d, userId = payload_id u,
                                      title = t, date = dt, isChecked = c\<rparr>],
                next_task_id := next_task_id d + 1\<rparr>)"
    and "post_tasks_for_plain u body d = post_tasks_for u body d"
  using assms
  by (simp_all add: post_tasks_for_def post_tasks_for_plain_def prisma_task_create_def Let_def)

lemma post_tasks_for_empty:
  assumes "f_title body = JStr [] \<or> f_date body = JStr []"
  shows "post_tasks_for u body d = (Reply 400 (ErrorBody ''Invalid task data''), d)"
    and "post_tasks_for_plain u body d = (Reply 200 (ErrorBody ''Invalid task data''), d)"
  using assms by (auto simp: post_tasks_for_def post_tasks_for_plain_def)

text \<open>
  C6, amended. For an authenticated caller, \<^verbatim>\<open>POST /tasks\<close> with a title that is
  missing or empty, a date that is missing or empty, or an \<^verbatim>\<open>isChecked\<close> that is missing
  or not a boolean fails with a validation outcome and creates nothing: a body outside
  the declared schema (a field missing or of another type) is refused by the validation
  of the schema, a body inside it with an empty title or date is answered "Invalid task
  data" by the handler (status 400 in \<^verbatim>\<open>index.ts\<close>, the plain error object in the
  variant). With a title and a date that are strings and not empty, a boolean
  \<^verbatim>\<open>isChecked\<close> and a caller whose id resolves to a stored user, a task is appended to
  the store and returned: its \<^verbatim>\<open>userId\<close> is the caller's id, its fields are those of
  the request.
\<close>

theorem create_task_validated:
  assumes auth: "userPayload_of verify hdrs = Inr (Some u)"
  shows "(\<not> task_body_schema body
          \<longrightarrow> post_tasks_route verify hdrs body d = (SchemaRejected, d)
              \<and> post_tasks_plain_route verify hdrs body d = (SchemaRejected, d))
       \<and> (task_body_schema body \<and> (f_title body = JStr [] \<or> f_date body = JStr [])
          \<longrightarrow> post_tasks_route verify hdrs body d
                = (Reply 400 (ErrorBody ''Invalid task data''), d)
              \<and> post_tasks_plain_route verify hdrs body d
                = (Reply 200 (ErrorBody ''Invalid task data''), d))
       \<and> (f_title body = JUndefined \<or> f_title body = JStr [] \<or> f_date body = JUndefined
            \<or> f_date body = JStr [] \<or> \<not> is_boolean (f_isChecked body)
          \<longrightarrow> fst (post_tasks_route verify hdrs body d)
                \<in> {SchemaRejected, Reply 400 (ErrorBody ''Invalid task data'')}
              \<and> snd (post_tasks_route verify hdrs body d) = d
              \<and> fst (post_tasks_plain_route verify hdrs body d)
                \<in> {SchemaRejected, Reply 200 (ErrorBody ''Invalid task data'')}
              \<and> snd (post_tasks_plain_route verify hdrs body d) = d)
       \<and> (\<forall>t dt c owner. f_title body = JStr t \<and> t \<noteq> [] \<and> f_date body = JStr dt \<and> dt \<noteq> []
                    \<and> f_isChecked body = JBool c
                    \<and> find (\<lambda>r. user_id r = payload_id u) (users d) = Some owner
          \<longrightarrow> post_tasks_route verify hdrs body d
                = (Reply 200 (TaskBody \<lparr>task_id = next_task_id d, userId = payload_id u,
                                         title = t, date = dt, isChecked = c\<rparr>),
                   d\<lparr>tasks := tasks d @ [\<lparr>task_id = next_task_id d, userId = payload_id u,
                                           title = t, date = dt, isChecked = c\<rparr>],
                     next_task_id := next_task_id d + 1\<rparr>)
              \<and> post_tasks_plain_route verify hdrs body d = post_tasks_route verify hdrs body d)"
proof -
  have inside: "post_tasks_route verify hdrs body d = post_tasks_for u body d"
    "post_tasks_plain_route verify hdrs body d = post_tasks_for_plain u body d"
    if "task_body_schema body"
    using that auth
    by (simp_all add: post_tasks_route_def post_tasks_plain_route_def post_tasks_def
        post_tasks_plain_def)
  have outside: "post_tasks_route verify hdrs body d = (SchemaRejected, d)"
    "post_tasks_plain_route verify hdrs body d = (SchemaRejected, d)"
    if "\<not> task_body_schema body"
    using that by (simp_all add: post_tasks_route_def post_tasks_plain_route_def)
  have c1: "\<not> task_body_schema body
          \<longrightarrow> post_tasks_route verify hdrs body d = (SchemaRejected, d)
              \<and> post_tasks_plain_route verify hdrs body d = (SchemaRejected, d)"
    using outside by blast
  have c2: "task_body_schema body \<and> (f_title body = JStr [] \<or> f_date body = JStr [])
          \<longrightarrow> post_tasks_route verify hdrs body d
                = (Reply 400 (ErrorBody ''Invalid task data''), d)
              \<and> post_tasks_plain_route verify hdrs body d
                = (Reply 200 (ErrorBody ''Invalid task data''), d)"
    using inside post_tasks_for_empty [of body u d] by auto
  have c3: "f_title body = JUndefined \<or> f_title body = JStr [] \<or> f_date body = JUndefined
            \<or> f_date body = JStr [] \<or> \<not> is_boolean (f_isChecked body)
          \<longrightarrow> fst (post_tasks_route verify hdrs body d)
                \<in> {SchemaRejected, Reply 400 (ErrorBody ''Invalid task data'')}
              \<and> snd (post_tasks_route verify hdrs body d) = d
              \<and> fst (post_tasks_plain_route verify hdrs body d)
                \<in> {SchemaRejected, Reply 200 (ErrorBody ''Invalid task data'')}
              \<and> snd (post_tasks_plain_route verify hdrs body d) = d"
  proof (intro impI)
    assume bad: "f_title body = JUndefined \<or> f_title body = JStr [] \<or> f_date body = JUndefined
            \<or> f_date body = JStr [] \<or> \<not> is_boolean (f_isChecked body)"
    show "fst (post_tasks_route verify hdrs body d)
                \<in> {SchemaRejected, Reply 400 (ErrorBody ''Invalid task data'')}
              \<and> snd (post_tasks_route verify hdrs body d) = d
              \<and> fst (post_tasks_plain_route verify hdrs body d)
                \<in> {SchemaRejected, Reply 200 (ErrorBody ''Invalid task data'')}
              \<and> snd (post_tasks_plain_route verify hdrs body d) = d"
    proof (cases "task_body_schema body")
      case False
      with c1 show ?thesis by simp
    next
      case True
      with bad have "f_title body = JStr [] \<or> f_date body = JStr []"
        by (auto simp: schema_typed)
      with True c2 show ?thesis by simp
    qed
  qed
  have c4: "\<forall>t dt c owner. f_title body = JStr t \<and> t \<noteq> [] \<and> f_date body = JStr dt \<and> dt \<noteq> []
                    \<and> f_isChecked body = JBool c
                    \<and> find (\<lambda>r. user_id r = payload_id u) (users d) = Some owner
          \<longrightarrow> post_tasks_route verify hdrs body d
                = (Reply 200 (TaskBody \<lparr>task_id = next_task_id d, userId = payload_id u,
                                         title = t, date = dt, isChecked = c\<rparr>),
                   d\<lparr>tasks := tasks d @ [\<lparr>task_id = next_task_id d, userId = payload_id u,
                                           title = t, date = dt, isChecked = c\<rparr>],
                     next_task_id := next_task_id d + 1\<rparr>)
              \<and> post_tasks_plain_route verify hdrs body d = post_tasks_route verify hdrs body d"
  proof (intro allI impI)
    fix t dt c owner
    assume a: "f_title body = JStr t \<and> t \<noteq> [] \<and> f_date body = JStr dt \<and> dt \<noteq> []
                    \<and> f_isChecked body = JBool c
                    \<and> find (\<lambda>r. user_id r = payload_id u) (users d) = Some owner"
    then have "task_body_schema body"
      by (auto simp: schema_typed)
    with a inside post_tasks_for_created [of body t dt c u d owner]
    show "post_tasks_route verify hdrs body d
                = (Reply 200 (TaskBody \<lparr>task_id = next_task_id d, userId = payload_id u,
                                         title = t, date = dt, isChecked = c\<rparr>),
                   d\<lparr>tasks := tasks d @ [\<lparr>task_id = next_task_id d, userId = payload_id u,
                                           title = t, date = dt, isChecked = c\<rparr>],
                     next_task_id := next_task_id d + 1\<rparr>)
              \<and> post_tasks_plain_route verify hdrs body d = post_tasks_route verify hdrs body d"
      by simp
  qed
  from c1 c2 c3 c4 show ?thesis
    by blast
qed

theorem create_task_validated_witness:
  "post_tasks_route verify_abc hdrs_abc no_isChecked db1 = (SchemaRejected, db1)
   \<and> post_tasks_route verify_abc hdrs_abc empty_title db1
       = (Reply 400 (ErrorBody ''Invalid task data''), db1)
   \<and> post_tasks_plain_route verify_abc hdrs_abc empty_title db1
       = (Reply 200 (ErrorBody ''Invalid task data''), db1)
   \<and> post_tasks_route verify_abc hdrs_abc valid_body db1
       = (Reply 200 (TaskBody \<lparr>task_id = 3, userId = 1, title = ''t'', date = ''2024-01-01'',
                                isChecked = False\<rparr>),
          db1\<lparr>tasks := tasks db1 @ [\<lparr>task_id = 3, userId = 1, title = ''t'',
                                      date = ''2024-01-01'', isChecked = False\<rparr>],
              next_task_id := 4\<rparr>)"
proof -
  have missing: "\<not> task_body_schema no_isChecked"
    by (simp add: task_body_schema_def no_isChecked_def)
  have empty: "task_body_schema empty_title \<and> (f_title empty_title = JStr [] \<or> f_date empty_title = JStr [])"
    by (simp add: task_body_schema_def empty_title_def)
  have given: "f_title valid_body = JStr ''t'' \<and> ''t'' \<noteq> [] \<and> f_date valid_body = JStr ''2024-01-01''
      \<and> ''2024-01-01'' \<noteq> [] \<and> f_isChecked valid_body = JBool False
      \<and> find (\<lambda>r. user_id r = payload_id alice) (users db1) = Some user1"
    by (simp add: valid_body_def alice_def db1_def user1_def)
  have ids: "next_task_id db1 = 3" "payload_id alice = 1"
    by (simp_all add: db1_def alice_def)
  from create_task_validated [OF userPayload_abc, of no_isChecked db1] missing
  have r1: "post_tasks_route verify_abc hdrs_abc no_isChecked db1 = (SchemaRejected, db1)"
    by blast
  from create_task_validated [OF userPayload_abc, of empty_title db1] empty
  have r2: "post_tasks_route verify_abc hdrs_abc empty_title db1
        = (Reply 400 (ErrorBody ''Invalid task data''), db1)
      \<and> post_tasks_plain_route verify_abc hdrs_abc empty_title db1
        = (Reply 200 (ErrorBody ''Invalid task data''), db1)"
    by blast
  from create_task_validated [OF userPayload_abc, of valid_body db1] given
  have "post_tasks_route verify_abc hdrs_abc valid_body db1
       = (Reply 200 (TaskBody \<lparr>task_id = next_task_id db1, userId = payload_id alice, title = ''t'',
                                date = ''2024-01-01'', isChecked = False\<rparr>),
          db1\<lparr>tasks := tasks db1 @ [\<lparr>task_id = next_task_id db1, userId = payload_id alice,
                                      title = ''t'', date = ''2024-01-01'', isChecked = False\<rparr>],
              next_task_id := next_task_id db1 + 1\<rparr>)"
    by blast
  with r1 r2 ids show ?thesis
    by simp
qed

subsection \<open>Uploading a profile image\<close>

lemma find_map_user:
  "find (\<lambda>r. user_id r = j) (map (\<lambda>r. if user_id r = i then r\<lparr>image_path := p\<rparr> else r) us)
     = (if j = i then map_option (\<lambda>r. r\<lparr>image_path := p\<rparr>) (find (\<lambda>r. user_id r = i) us)
        else find (\<lambda>r. user_id r = j) us)"
  by (induction us) auto

lemma image_rejected:
  assumes "5 * 1024 * 1024 < file_size f
           \<or> file_type f \<notin> {''image/jpeg'', ''image/png'', ''image/gif''}"
  shows "post_profile_image_route content_ok verify cwd now extname hdrs (Some f) d disk
           = (SchemaRejected, d, disk)"
  using assms by (auto simp: post_profile_image_route_def image_schema_def)

lemma image_change_accepted:
  assumes "post_profile_image_route content_ok verify cwd now extname hdrs img d disk
             = (r, d', disk')"
    and "d' \<noteq> d \<or> disk' \<noteq> disk"
  shows "\<exists>f. img = Some f \<and> file_size f \<le> 5 * 1024 * 1024
              \<and> file_type f \<in> {''image/jpeg'', ''image/png'', ''image/gif''}"
proof -
  from assms have "image_schema content_ok img"
    by (auto simp: post_profile_image_route_def split: if_splits)
  then show ?thesis
    by (auto simp: image_schema_def split: option.splits)
qed

lemma image_stored:
  assumes auth: "userPayload_of verify hdrs = Inr (Some u)"
    and ok: "image_schema content_ok (Some f)"
    and name: "file_name f \<noteq> []"
    and row: "find (\<lambda>r. user_id r = payload_id u) (users d) = Some usr"
  shows "\<exists>d' disk' name.
           name = ''user_'' @ show_int (payload_id u) @ ''_'' @ show_nat now @ extname (file_name f)
           \<and> post_profile_image_route content_ok verify cwd now extname hdrs (Some f) d disk
               = (Reply 200 (ImageBody ''Image updated'' (''uploads/'' @ name)), d', disk')
           \<and> files disk' = (files disk)(cwd @ ''/uploads/'' @ name \<mapsto> file_bytes f)
           \<and> find (\<lambda>r. user_id r = payload_id u) (users d')
               = Some (usr\<lparr>image_path := ''uploads/'' @ name\<rparr>)
           \<and> tasks d' = tasks d"
proof -
  let ?name = "''user_'' @ show_int (payload_id u) @ ''_'' @ show_nat now @ extname (file_name f)"
  from row have upd: "prisma_user_update_image (payload_id u) (''uploads/'' @ ?name) d
      = Inr (d\<lparr>users := map (\<lambda>r. if user_id r = payload_id u
                                  then r\<lparr>image_path := ''uploads/'' @ ?name\<rparr> else r) (users d)\<rparr>)"
    by (simp add: prisma_user_update_image_def)
  show ?thesis
    using auth name row ok upd
    by (simp add: post_profile_image_route_def post_profile_image_def post_profile_image_for_def
        Let_def path_join_def find_map_user)
qed

text \<open>
  C7. On \<^verbatim>\<open>POST /profile/image\<close> a file of more than 5 MiB, or of a content type
  outside the list jpeg, png, gif, is refused by the validation of the declared body
  schema before the handler runs: nothing is written and the store is unchanged.
  Whenever the route changes the store or the disk, the file is of a listed type and of
  at most 5 MiB. For an authenticated caller whose row exists, a file that passes the
  validation and has a name is written under the uploads directory and the caller's
  image field becomes the relative path that is returned (the caller's id and the clock
  being below \<open>10 ^ 21\<close>, where a number prints in plain digits).
\<close>

theorem image_upload_validated:
  "(\<forall>f. img = Some f
         \<and> (5 * 1024 * 1024 < file_size f
              \<or> file_type f \<notin> {''image/jpeg'', ''image/png'', ''image/gif''})
      \<longrightarrow> post_profile_image_route content_ok verify cwd now extname hdrs img d disk
            = (SchemaRejected, d, disk))
   \<and> (\<forall>r d' disk'.
          post_profile_image_route content_ok verify cwd now extname hdrs img d disk
            = (r, d', disk')
          \<and> (d' \<noteq> d \<or> disk' \<noteq> disk)
      \<longrightarrow> (\<exists>f. img = Some f \<and> file_size f \<le> 5 * 1024 * 1024
               \<and> file_type f \<in> {''image/jpeg'', ''image/png'', ''image/gif''}))
   \<and> (\<forall>u f usr. userPayload_of verify hdrs = Inr (Some u) \<and> img = Some f
          \<and> image_schema content_ok (Some f)
          \<and> file_name f \<noteq> []
          \<and> find (\<lambda>r. user_id r = payload_id u) (users d) = Some usr
          \<and> \<bar>payload_id u\<bar> < 10 ^ 21 \<and> now < 10 ^ 21
      \<longrightarrow> (\<exists>d' disk' name.
             name = ''user_'' @ show_int (payload_id u) @ ''_'' @ show_nat now
                      @ extname (file_name f)
             \<and> post_profile_image_route content_ok verify cwd now extname hdrs img d disk
                 = (Reply 200 (ImageBody ''Image updated'' (''uploads/'' @ name)), d', disk')
             \<and> files disk' = (files disk)(cwd @ ''/uploads/'' @ name \<mapsto> file_bytes f)
             \<and> find (\<lambda>r. user_id r = payload_id u) (users d')
                 = Some (usr\<lparr>image_path := ''uploads/'' @ name\<rparr>)
             \<and> tasks d' = tasks d))"
proof (intro conjI allI impI)
  fix f
  assume "img = Some f \<and> (5 * 1024 * 1024 < file_size f
              \<or> file_type f \<notin> {''image/jpeg'', ''image/png'', ''image/gif''})"
  then show "post_profile_image_route content_ok verify cwd now extname hdrs img d disk
               = (SchemaRejected, d, disk)"
    using image_rejected [of f] by blast
next
  fix r d' disk'
  assume "post_profile_image_route content_ok verify cwd now extname hdrs img d disk
            = (r, d', disk')
          \<and> (d' \<noteq> d \<or> disk' \<noteq> disk)"
  then show "\<exists>f. img = Some f \<and> file_size f \<le> 5 * 1024 * 1024
               \<and> file_type f \<in> {''image/jpeg'', ''image/png'', ''image/gif''}"
    using image_change_accepted [of content_ok verify cwd now extname hdrs img d disk r d' disk']
    by blast
next
  fix u f usr
  assume a: "userPayload_of verify hdrs = Inr (Some u) \<and> img = Some f
          \<and> image_schema content_ok (Some f)
          \<and> file_name f \<noteq> []
          \<and> find (\<lambda>r. user_id r = payload_id u) (users d) = Some usr
          \<and> \<bar>payload_id u\<bar> < 10 ^ 21 \<and> now < 10 ^ 21"
  then have "img = Some f" by blast
  with a image_stored [of verify hdrs u content_ok f d usr now extname cwd disk]
  show "\<exists>d' disk' name.
             name = ''user_'' @ show_int (payload_id u) @ ''_'' @ show_nat now
                      @ extname (file_name f)
             \<and> post_profile_image_route content_ok verify cwd now extname hdrs img d disk
                 = (Reply 200 (ImageBody ''Image updated'' (''uploads/'' @ name)), d', disk')
             \<and> files disk' = (files disk)(cwd @ ''/uploads/'' @ name \<mapsto> file_bytes f)
             \<and> find (\<lambda>r. user_id r = payload_id u) (users d')
                 = Some (usr\<lparr>image_path := ''uploads/'' @ name\<rparr>)
             \<and> tasks d' = tasks d"
    by blast
qed

lemma show_examples: "show_int 1 = ''1''" "show_nat 1700 = ''1700''"
  by code_simp+

theorem image_upload_validated_witness:
  "post_profile_image_route png_signature verify_abc ''/srv'' 1700 extname_example hdrs_abc
       (Some big_image) db1 disk0 = (SchemaRejected, db1, disk0)
   \<and> (\<exists>d' disk'.
        post_profile_image_route png_signature verify_abc ''/srv'' 1700 extname_example hdrs_abc
            (Some small_image) db1 disk0
          = (Reply 200 (ImageBody ''Image updated'' ''uploads/user_1_1700.png''), d', disk')
        \<and> files disk' = [''/srv/uploads/user_1_1700.png'' \<mapsto> pixel_bytes]
        \<and> find (\<lambda>r. user_id r = 1) (users d')
            = Some (user1\<lparr>image_path := ''uploads/user_1_1700.png''\<rparr>))"
proof -
  note inst = image_upload_validated [where content_ok = png_signature and verify = verify_abc
      and cwd = "''/srv''" and now = 1700 and extname = extname_example and hdrs = hdrs_abc
      and d = db1 and disk = disk0]
  have big: "5 * 1024 * 1024 < file_size big_image"
    by (simp add: big_image_size)
  from inst [where img = "Some big_image"] big
  have rejected: "post_profile_image_route png_signature verify_abc ''/srv'' 1700 extname_example
      hdrs_abc (Some big_image) db1 disk0 = (SchemaRejected, db1, disk0)"
    by blast
  have name: "file_name small_image \<noteq> []"
    by (simp add: small_image_def)
  have row: "find (\<lambda>r. user_id r = payload_id alice) (users db1) = Some user1"
    by (simp add: alice_def db1_def user1_def)
  have bounds: "\<bar>payload_id alice\<bar> < 10 ^ 21" "(1700 :: nat) < 10 ^ 21"
    by (simp_all add: alice_def)
  have printed: "''user_'' @ show_int (payload_id alice) @ ''_'' @ show_nat 1700
      @ extname_example (file_name small_image) = ''user_1_1700.png''"
    by (simp add: alice_def show_examples extname_example_def small_image_def)
  from inst [where img = "Some small_image"] userPayload_abc small_image_fits name row bounds
  have "\<exists>d' disk' name.
      name = ''user_'' @ show_int (payload_id alice) @ ''_'' @ show_nat 1700
               @ extname_example (file_name small_image)
      \<and> post_profile_image_route png_signature verify_abc ''/srv'' 1700 extname_example hdrs_abc
            (Some small_image) db1 disk0
          = (Reply 200 (ImageBody ''Image updated'' (''uploads/'' @ name)), d', disk')
      \<and> files disk' = (files disk0)(''/srv'' @ ''/uploads/'' @ name \<mapsto> file_bytes small_image)
      \<and> find (\<lambda>r. user_id r = payload_id alice) (users d')
          = Some (user1\<lparr>image_path := ''uploads/'' @ name\<rparr>)
      \<and> tasks d' = tasks db1"
    by blast
  then have accepted: "\<exists>d' disk'.
        post_profile_image_route png_signature verify_abc ''/srv'' 1700 extname_example hdrs_abc
            (Some small_image) db1 disk0
          = (Reply 200 (ImageBody ''Image updated'' ''uploads/user_1_1700.png''), d', disk')
        \<and> files disk' = [''/srv/uploads/user_1_1700.png'' \<mapsto> pixel_bytes]
        \<and> find (\<lambda>r. user_id r = 1) (users d')
            = Some (user1\<lparr>image_path := ''uploads/user_1_1700.png''\<rparr>)"
    unfolding printed by (auto simp: disk0_def small_image_def alice_def)
  from rejected accepted show ?thesis
    by blast
qed

subsection \<open>Registering twice\<close>

lemma find_append_new:
  "find P xs = None \<Longrightarrow> P x \<Longrightarrow> find P (xs @ [x]) = Some x"
  by (induction xs) auto

text \<open>
  C8. For an email that is not yet in the store, with passwords that are not empty:
  the first \<^verbatim>\<open>POST /register\<close> succeeds, the second with the same email answers
  \<^verbatim>\<open>{error: "User exists"}\<close> and leaves the store as the first left it. The password
  stored by the first is the digest that \<^verbatim>\<open>bcrypt.hash\<close> returned, which differs from
  the plaintext whenever the digest does.
\<close>

theorem register_twice:
  assumes fresh: "prisma_user_findUnique_email e d = None"
    and e: "e \<noteq> []" and pw: "pw \<noteq> []" and pw': "pw' \<noteq> []"
    and digest: "hash pw 10 \<noteq> pw"
  shows "\<exists>d1 usr. post_register hash \<lparr>c_email = JStr e, c_password = JStr pw\<rparr> d
                 = (Reply 200 (MessageBody ''Registered successfully''), d1)
           \<and> post_register hash' \<lparr>c_email = JStr e, c_password = JStr pw'\<rparr> d1
                 = (Reply 200 (ErrorBody ''User exists''), d1)
           \<and> prisma_user_findUnique_email e d1 = Some usr
           \<and> users d1 = users d @ [usr]
           \<and> password usr = hash pw 10 \<and> password usr \<noteq> pw"
proof -
  let ?row = "\<lparr>user_id = next_user_id d, email = e, password = hash pw 10, image_path = []\<rparr>"
  let ?d1 = "d\<lparr>users := users d @ [?row], next_user_id := next_user_id d + 1\<rparr>"
  from fresh have none: "find (\<lambda>u. email u = e) (users d) = None"
    by (simp add: prisma_user_findUnique_email_def)
  then have no_dup: "\<not> (\<exists>u \<in> set (users d). email u = e)"
    by (auto simp: find_None_iff)
  have created: "prisma_user_create e (hash pw 10) [] d = Inr (?row, ?d1)"
    using no_dup by (simp add: prisma_user_create_def Let_def)
  have first: "post_register hash \<lparr>c_email = JStr e, c_password = JStr pw\<rparr> d
                 = (Reply 200 (MessageBody ''Registered successfully''), ?d1)"
    using e pw fresh created by (simp add: post_register_def)
  have stored: "prisma_user_findUnique_email e ?d1 = Some ?row"
    using none by (simp add: prisma_user_findUnique_email_def find_append_new)
  have second: "post_register hash' \<lparr>c_email = JStr e, c_password = JStr pw'\<rparr> ?d1
                 = (Reply 200 (ErrorBody ''User exists''), ?d1)"
    using e pw' stored by (simp add: post_register_def)
  show ?thesis
    using first second stored digest
    by (intro exI [of _ ?d1] exI [of _ ?row]) simp
qed

theorem register_twice_witness:
  "\<exists>d1 usr. post_register hash_example fresh_credentials db1
               = (Reply 200 (MessageBody ''Registered successfully''), d1)
     \<and> post_register hash_example fresh_credentials d1
               = (Reply 200 (ErrorBody ''User exists''), d1)
     \<and> users d1 = [user1, user2, usr]
     \<and> password usr = ''$2a$secret''"
proof -
  have fresh: "prisma_user_findUnique_email ''carol@example.com'' db1 = None"
    by (simp add: prisma_user_findUnique_email_def db1_def user1_def user2_def)
  have digest: "hash_example ''secret'' 10 \<noteq> ''secret''"
    by (simp add: hash_example_def)
  from register_twice [where e = "''carol@example.com''" and d = db1 and pw = "''secret''"
      and pw' = "''secret''" and hash = hash_example and hash' = hash_example, OF fresh _ _ _ digest]
  show ?thesis
    by (auto simp: fresh_credentials_def hash_example_def db1_def)
qed

subsection \<open>The profile\<close>

lemma find_user_id: "find (\<lambda>r. user_id r = i) us = Some usr \<Longrightarrow> user_id usr = i"
  by (auto simp: find_Some_iff)

text \<open>
  C9. For an authenticated caller, \<^verbatim>\<open>GET /profile\<close> answers, when the caller's id
  resolves to a stored user, with that user's email and image and with the statistics
  of the tasks whose \<^verbatim>\<open>userId\<close> is that id: \<^verbatim>\<open>total\<close> is their number,
  \<^verbatim>\<open>completed\<close> the number of them that are checked. When the id resolves to no user
  it answers "User not found" (status 404 in \<^verbatim>\<open>index.ts\<close>, the plain error object in
  the variant). The store is unchanged.
\<close>

theorem profile_stats:
  assumes "userPayload_of verify hdrs = Inr (Some u)"
  shows "(\<forall>usr. find (\<lambda>r. user_id r = payload_id u) (users d) = Some usr
           \<longrightarrow> get_profile verify hdrs d
                 = (Reply 200 (ProfileBody (email usr) (image_path usr)
                      (length (filter (\<lambda>t. userId t = payload_id u) (tasks d)))
                      (length (filter (\<lambda>t. userId t = payload_id u \<and> isChecked t) (tasks d)))),
                    d)
               \<and> get_profile_plain verify hdrs d = get_profile verify hdrs d)
       \<and> (find (\<lambda>r. user_id r = payload_id u) (users d) = None
           \<longrightarrow> get_profile verify hdrs d = (Reply 404 (ErrorBody ''User not found''), d)
               \<and> get_profile_plain verify hdrs d
                   = (Reply 200 (ErrorBody ''User not found''), d))"
  using assms
  by (auto simp: get_profile_def get_profile_for_def get_profile_plain_def
      get_profile_for_plain_def prisma_user_findUnique_tasks_def conj_commute
      dest: find_user_id)

theorem profile_stats_witness:
  "get_profile verify_abc hdrs_abc db3
     = (Reply 200 (ProfileBody ''alice@example.com'' [] 3 2), db3)
   \<and> get_profile verify_abc hdrs_abc (db3\<lparr>users := [user2]\<rparr>)
     = (Reply 404 (ErrorBody ''User not found''), db3\<lparr>users := [user2]\<rparr>)"
proof -
  have row: "find (\<lambda>r. user_id r = payload_id alice) (users db3) = Some user1"
    by (simp add: alice_def db3_def user1_def)
  have gone: "find (\<lambda>r. user_id r = payload_id alice) (users (db3\<lparr>users := [user2]\<rparr>)) = None"
    by (simp add: alice_def user2_def)
  from profile_stats [OF userPayload_abc, of db3] row
  have present: "get_profile verify_abc hdrs_abc db3
     = (Reply 200 (ProfileBody (email user1) (image_path user1)
          (length (filter (\<lambda>t. userId t = payload_id alice) (tasks db3)))
          (length (filter (\<lambda>t. userId t = payload_id alice \<and> isChecked t) (tasks db3)))), db3)"
    by blast
  from profile_stats [OF userPayload_abc, of "db3\<lparr>users := [user2]\<rparr>"] gone
  have absent: "get_profile verify_abc hdrs_abc (db3\<lparr>users := [user2]\<rparr>)
     = (Reply 404 (ErrorBody ''User not found''), db3\<lparr>users := [user2]\<rparr>)"
    by blast
  from present absent show ?thesis
    by (simp add: db3_def user1_def task1_def task2_def alice_def)
qed

subsection \<open>The two variants\<close>

lemma post_tasks_variants:
  "post_tasks_plain verify hdrs body d = apfst erase_status (post_tasks verify hdrs body d)"
  "status_ok (fst (post_tasks verify hdrs body d))"
  by (auto simp: post_tasks_def post_tasks_for_def post_tasks_plain_def
      post_tasks_for_plain_def status_ok_def split: sum.splits option.splits)

lemma get_tasks_variants:
  "get_tasks_plain verify hdrs q d = apfst erase_status (get_tasks verify hdrs q d)"
  "status_ok (fst (get_tasks verify hdrs q d))"
  by (auto simp: get_tasks_def get_tasks_for_def get_tasks_plain_def get_tasks_for_plain_def
      status_ok_def Let_def split: sum.splits option.splits)

lemma patch_tasks_id_variants:
  "patch_tasks_id_plain verify hdrs i body d
     = apfst erase_status (patch_tasks_id verify hdrs i body d)"
  "status_ok (fst (patch_tasks_id verify hdrs i body d))"
  by (auto simp: patch_tasks_id_def patch_tasks_id_for_def patch_tasks_id_plain_def
      patch_tasks_id_for_plain_def status_ok_def split: sum.splits option.splits)

lemma get_profile_variants:
  "get_profile_plain verify hdrs d = apfst erase_status (get_profile verify hdrs d)"
  "status_ok (fst (get_profile verify hdrs d))"
  by (auto simp: get_profile_def get_profile_for_def get_profile_plain_def
      get_profile_for_plain_def status_ok_def split: sum.splits option.splits)

text \<open>
  C10. For every store, every header and every request, the handlers of
  \<^verbatim>\<open>POST /tasks\<close>, \<^verbatim>\<open>GET /tasks\<close>, \<^verbatim>\<open>PATCH /tasks/:id\<close> and \<^verbatim>\<open>GET /profile\<close> in
  \<^verbatim>\<open>index.ts\<close> and in the variant leave the same store and answer the same body. They
  differ in the status only: \<^verbatim>\<open>index.ts\<close> sends an error body under 400, 401 or 404 and
  any other body under 200, the variant sends every body under 200.
\<close>

theorem variants_agree:
  "snd (post_tasks_plain verify hdrs body d) = snd (post_tasks verify hdrs body d)
   \<and> fst (post_tasks_plain verify hdrs body d) = erase_status (fst (post_tasks verify hdrs body d))
   \<and> status_ok (fst (post_tasks verify hdrs body d))
   \<and> snd (get_tasks_plain verify hdrs q d) = snd (get_tasks verify hdrs q d)
   \<and> fst (get_tasks_plain verify hdrs q d) = erase_status (fst (get_tasks verify hdrs q d))
   \<and> status_ok (fst (get_tasks verify hdrs q d))
   \<and> snd (patch_tasks_id_plain verify hdrs i body d) = snd (patch_tasks_id verify hdrs i body d)
   \<and> fst (patch_tasks_id_plain verify hdrs i body d)
       = erase_status (fst (patch_tasks_id verify hdrs i body d))
   \<and> status_ok (fst (patch_tasks_id verify hdrs i body d))
   \<and> snd (get_profile_plain verify hdrs d) = snd (get_profile verify hdrs d)
   \<and> fst (get_profile_plain verify hdrs d) = erase_status (fst (get_profile verify hdrs d))
   \<and> status_ok (fst (get_profile verify hdrs d))"
  by (simp add: post_tasks_variants get_tasks_variants patch_tasks_id_variants
      get_profile_variants)

theorem variants_agree_witness:
  "fst (patch_tasks_id verify_abc hdrs_abc 2 only_checked db1)
     = Reply 404 (ErrorBody ''Task not found'')
   \<and> fst (patch_tasks_id_plain verify_abc hdrs_abc 2 only_checked db1)
     = Reply 200 (ErrorBody ''Task not found'')
   \<and> snd (patch_tasks_id_plain verify_abc hdrs_abc 2 only_checked db1) = db1"
proof -
  have r: "patch_tasks_id verify_abc hdrs_abc 2 only_checked db1
      = (Reply 404 (ErrorBody ''Task not found''), db1)"
    by (simp add: patch_tasks_id_def userPayload_abc patch_tasks_id_for_def
        prisma_task_findUnique_def db1_def task1_def task2_def alice_def)
  from variants_agree [of verify_abc hdrs_abc only_checked db1 date_filter 2] r
  show ?thesis
    by simp
qed

end
